theory Spec2Isabelle
  imports Complex_Main
begin

section \<open>Values of the Python runtime\<close>

text \<open>
  Strings are lists of characters whose code points lie below 256; a byte string is a list
  of naturals below 256. A decoded JSON document is a \<open>json\<close> value: Python's \<open>None\<close>,
  \<open>bool\<close>, \<open>int\<close>, finite \<open>float\<close> (its exact rational value), non-finite \<open>float\<close>,
  \<open>str\<close>, \<open>list\<close> and \<open>dict\<close> (an association list, looked up from the front).
\<close>

type_synonym bytes = "nat list"

datatype json =
    JNull
  | JBool bool
  | JInt int
  | JFloat rat
  | JNonFinite
  | JStr string
  | JArr "json list"
  | JObj "(string \<times> json) list"

text \<open>
  Every \<open>raise\<close> of the service, of the store and of the router is a constructor; the ones
  that interpolate a caught exception into their message carry that exception.
\<close>

datatype error =
    RequestException string
  | PyError string
  | StoreError string
  | NoSpendableUtxos string
  | InsufficientFunds json int int int
  | BroadcastError error
  | PersistenceFailure error
  | AnchorFailed string error
  | ReconciliationRequired string string error
  | HTTPException nat string "error option"

text \<open>\<open>str.encode('utf-8')\<close> on code points below 256: one byte below 128, two bytes above.\<close>

definition utf8_char :: "char \<Rightarrow> bytes" where
  "utf8_char c =
     (let n = (of_char c :: nat)
      in if n < 128 then [n] else [192 + n div 64, 128 + n mod 64])"

definition utf8_encode :: "string \<Rightarrow> bytes" where
  "utf8_encode s = concat (map utf8_char s)"

text \<open>\<open>int.from_bytes(b, 'big')\<close>.\<close>

definition from_bytes_big :: "bytes \<Rightarrow> int" where
  "from_bytes_big bs = foldl (\<lambda>acc b. acc * 256 + int b) 0 bs"

text \<open>Truth value of an object, as \<open>if x\<close> and \<open>x and y\<close> test it.\<close>

fun truthy :: "json \<Rightarrow> bool" where
  "truthy JNull = False"
| "truthy (JBool b) = b"
| "truthy (JInt n) = (n \<noteq> 0)"
| "truthy (JFloat q) = (q \<noteq> 0)"
| "truthy JNonFinite = True"
| "truthy (JStr s) = (s \<noteq> [])"
| "truthy (JArr xs) = (xs \<noteq> [])"
| "truthy (JObj kvs) = (kvs \<noteq> [])"

text \<open>\<open>int(x)\<close> on a float truncates towards zero.\<close>

definition int_of_float :: "rat \<Rightarrow> int" where
  "int_of_float q = (if 0 \<le> q then \<lfloor>q\<rfloor> else \<lceil>q\<rceil>)"

text \<open>
  \<open>isinstance(x, int)\<close>: \<open>bool\<close> is a subclass of \<open>int\<close>, with \<open>True == 1\<close> and
  \<open>False == 0\<close>. The result is the integer the object is, if it is one.
\<close>

fun instance_int :: "json \<Rightarrow> int option" where
  "instance_int (JInt n) = Some n"
| "instance_int (JBool b) = Some (if b then 1 else 0)"
| "instance_int _ = None"

text \<open>\<open>d.get(k, default)\<close> on a dict.\<close>

definition dict_get :: "(string \<times> json) list \<Rightarrow> string \<Rightarrow> json \<Rightarrow> json" where
  "dict_get kvs k dflt = (case map_of kvs k of None \<Rightarrow> dflt | Some v \<Rightarrow> v)"

text \<open>
  \<open>for x in data\<close>: a list gives its elements, a dict its keys, a string its characters;
  anything else raises \<open>TypeError\<close>.
\<close>

fun py_iter :: "json \<Rightarrow> error + json list" where
  "py_iter (JArr xs) = Inr xs"
| "py_iter (JObj kvs) = Inr (map (\<lambda>kv. JStr (fst kv)) kvs)"
| "py_iter (JStr s) = Inr (map (\<lambda>c. JStr [c]) s)"
| "py_iter _ = Inl (PyError ''TypeError: object is not iterable'')"

text \<open>
  \<open>str.strip()\<close> removes leading and trailing whitespace (the code points below 256 for
  which \<open>str.isspace\<close> holds); \<open>str.strip(chars)\<close> removes the given characters.
\<close>

definition is_space :: "char \<Rightarrow> bool" where
  "is_space c =
     (let n = (of_char c :: nat)
      in (9 \<le> n \<and> n \<le> 13) \<or> (28 \<le> n \<and> n \<le> 32) \<or> n = 133 \<or> n = 160)"

definition strip_by :: "(char \<Rightarrow> bool) \<Rightarrow> string \<Rightarrow> string" where
  "strip_by p s = rev (dropWhile p (rev (dropWhile p s)))"

definition strip :: "string \<Rightarrow> string" where
  "strip s = strip_by is_space s"

definition strip_chars :: "string \<Rightarrow> string \<Rightarrow> string" where
  "strip_chars cs s = strip_by (\<lambda>c. c \<in> set cs) s"

section \<open>The libraries the service calls\<close>

text \<open>
  A signing key of \<open>bsvlib\<close>: its private scalar and its network. A transaction: inputs,
  outputs and the keys it has been signed with.
\<close>

record key =
  private_int :: int
  key_network :: string

record tx_input =
  in_txid :: json
  in_index :: int
  in_sats :: int
  in_script_pubkey :: string

record tx_output =
  out_sats :: int
  out_script_pubkey :: string

record tx =
  tx_network :: string
  inputs :: "tx_input list"
  outputs :: "tx_output list"
  signed_with :: "key list"

text \<open>
  What \<open>hmac\<close>, \<open>hashlib\<close>, \<open>bsvlib\<close> and the Python runtime compute is not code of the
  service; the service is modelled over any implementation of them: the curve order \<open>N\<close>,
  HMAC-SHA256 (key, message), the byte form and the address of a key, the hex form of the
  pay-to-public-key-hash script of an address, the size estimate, the hex form and the
  identifier of a transaction, \<open>int(s)\<close> on a string and \<open>response.json()\<close>.
\<close>

record lib =
  curve_N :: int
  hmac_sha256 :: "bytes \<Rightarrow> bytes \<Rightarrow> bytes"
  private_bytes :: "key \<Rightarrow> bytes"
  address :: "key \<Rightarrow> string"
  p2pkh :: "string \<Rightarrow> string"
  estimated_size :: "tx \<Rightarrow> int"
  tx_hex :: "tx \<Rightarrow> string"
  txid :: "tx \<Rightarrow> string"
  int_of_str :: "string \<Rightarrow> int option"
  json_loads :: "string \<Rightarrow> json option"

text \<open>\<open>Key.from_int(n, network)\<close>.\<close>

definition Key_from_int :: "int \<Rightarrow> string \<Rightarrow> key" where
  "Key_from_int n net = \<lparr>private_int = n, key_network = net\<rparr>"

text \<open>\<open>int(x)\<close>: \<open>None\<close> stands for the \<open>TypeError\<close> or \<open>ValueError\<close> it raises.\<close>

fun py_int :: "lib \<Rightarrow> json \<Rightarrow> int option" where
  "py_int L (JInt n) = Some n"
| "py_int L (JBool b) = Some (if b then 1 else 0)"
| "py_int L (JFloat q) = Some (int_of_float q)"
| "py_int L (JStr s) = int_of_str L s"
| "py_int L _ = None"

section \<open>The outside world\<close>

text \<open>
  An HTTP request either raises a \<open>RequestException\<close> (no connection, timeout) or gives a
  response with a status code and a body. \<open>raise_for_status\<close> raises for 4xx and 5xx.
\<close>

datatype http_reply = ConnFail string | Reply nat string

record net =
  http_get :: "string \<Rightarrow> http_reply"
  http_post :: "string \<Rightarrow> string \<Rightarrow> http_reply"

definition raise_for_status :: "nat \<Rightarrow> error + unit" where
  "raise_for_status code =
     (if 400 \<le> code \<and> code < 600 then Inl (RequestException ''HTTPError'') else Inr ())"

text \<open>
  The store behind \<open>db_service\<close>: the two tables, whether the connection pool has been
  initialised and whether a connection can be had.
\<close>

record store =
  pool :: bool
  reachable :: bool
  issuer_urls :: "string \<rightharpoonup> string \<times> string option"
  vcsl_data :: "string \<rightharpoonup> string \<times> string"

text \<open>
  The methods the service calls on the injected \<open>db_service\<close> object (declared as
  \<open>object\<close>); each may raise.
\<close>

record db_api =
  update_issuer_url :: "string \<Rightarrow> string \<Rightarrow> store \<Rightarrow> error + store"
  store_issuer_anchor :: "string \<Rightarrow> string \<Rightarrow> store \<Rightarrow> error + store"
  store_vcsl :: "string \<Rightarrow> string \<Rightarrow> string \<Rightarrow> store \<Rightarrow> error + store"
  db_get_issuer_url :: "string \<Rightarrow> store \<Rightarrow> error + (string \<times> string option) option"
  db_get_vcsl :: "string \<Rightarrow> store \<Rightarrow> error + (string \<times> string) option"

text \<open>What a call did to the outside, in order.\<close>

datatype event =
    Fetched string
  | Submitted string string
  | DbUpdateIssuerUrl string string
  | DbStoreIssuerAnchor string string
  | DbStoreVcsl string string string
  | Warning string

record world =
  db :: store
  trace :: "event list"

section \<open>BsvService\<close>

record bsv_service =
  db_service :: db_api
  network :: string
  wallet_key :: key

definition VCSL_PROTOCOL_ID :: string where
  "VCSL_PROTOCOL_ID = ''quarkid-vcsl''"

definition WOC_API_BASE_URL :: string where
  "WOC_API_BASE_URL = ''https://api.whatsonchain.com/v1/bsv''"

subsection \<open>Key derivation\<close>

definition derive_brc42_key :: "lib \<Rightarrow> bsv_service \<Rightarrow> string \<Rightarrow> string \<Rightarrow> key" where
  "derive_brc42_key L S key_id protocol =
     (let hmac_key = private_bytes L (wallet_key S);
          context_string = protocol @ ''/'' @ key_id;
          message = utf8_encode context_string;
          hmac_digest = hmac_sha256 L hmac_key message;
          scalar = from_bytes_big hmac_digest;
          master_scalar = private_int (wallet_key S);
          child_scalar = (master_scalar + scalar) mod curve_N L
      in Key_from_int child_scalar (network S))"

text \<open>
  The derivation as the specification words it: the digest read as a big-endian unsigned
  integer is the sum of its bytes weighted by powers of 256.
\<close>

definition big_endian_value :: "bytes \<Rightarrow> int" where
  "big_endian_value d = (\<Sum>i<length d. int (d ! i) * 256 ^ (length d - 1 - i))"

definition spec_child_scalar :: "lib \<Rightarrow> key \<Rightarrow> string \<Rightarrow> int" where
  "spec_child_scalar L master context =
     (private_int master
        + big_endian_value (hmac_sha256 L (private_bytes L master) (utf8_encode context)))
      mod curve_N L"

subsection \<open>UTXO source\<close>

record utxo =
  u_txid :: json
  u_index :: int
  u_sats :: int
  u_script_pubkey :: string

text \<open>
  The body of the loop over the decoded response. \<open>utxo_data.get\<close> exists on a dict only
  and \<open>int(...)\<close> may raise; either exception leaves the loop.
\<close>

fun collect_utxos :: "lib \<Rightarrow> string \<Rightarrow> json list \<Rightarrow> utxo list \<Rightarrow> error + utxo list" where
  "collect_utxos L addr [] utxos = Inr utxos"
| "collect_utxos L addr (utxo_data # rest) utxos =
     (case utxo_data of
        JObj kvs \<Rightarrow>
          (case py_int L (dict_get kvs ''value'' (JInt 0)) of
             None \<Rightarrow> Inl (PyError ''int() cannot convert the value'')
           | Some sats \<Rightarrow>
               (let txid = dict_get kvs ''tx_hash'' JNull;
                    index = dict_get kvs ''tx_pos'' JNull
                in if sats > 0 \<and> truthy txid \<and> instance_int index \<noteq> None
                   then collect_utxos L addr rest
                          (utxos @ [\<lparr>u_txid = txid, u_index = the (instance_int index),
                                     u_sats = sats, u_script_pubkey = p2pkh L addr\<rparr>])
                   else collect_utxos L addr rest utxos))
      | _ \<Rightarrow> Inl (PyError ''AttributeError: no attribute get''))"

definition unspent_url :: "bsv_service \<Rightarrow> string \<Rightarrow> string" where
  "unspent_url S addr = WOC_API_BASE_URL @ ''/'' @ network S @ ''/address/'' @ addr @ ''/unspent''"

text \<open>Both \<open>except\<close> clauses return the empty list.\<close>

definition fetch_utxos :: "lib \<Rightarrow> net \<Rightarrow> bsv_service \<Rightarrow> string \<Rightarrow> world \<Rightarrow> utxo list \<times> world" where
  "fetch_utxos L W S addr w =
     (let url = unspent_url S addr;
          w' = w\<lparr>trace := trace w @ [Fetched url]\<rparr>
      in case http_get W url of
           ConnFail m \<Rightarrow> ([], w')
         | Reply code body \<Rightarrow>
             (case raise_for_status code of
                Inl e \<Rightarrow> ([], w')
              | Inr _ \<Rightarrow>
                  (case json_loads L body of
                     None \<Rightarrow> ([], w')
                   | Some data \<Rightarrow>
                       (case py_iter data of
                          Inl e \<Rightarrow> ([], w')
                        | Inr items \<Rightarrow>
                            (case collect_utxos L addr items [] of
                               Inl e \<Rightarrow> ([], w')
                             | Inr utxos \<Rightarrow> (utxos, w'))))))"

text \<open>The check of the loop on one entry, and the entry it appends.\<close>

definition usable :: "lib \<Rightarrow> json \<Rightarrow> bool" where
  "usable L utxo_data =
     (case utxo_data of
        JObj kvs \<Rightarrow>
          (case py_int L (dict_get kvs ''value'' (JInt 0)) of
             None \<Rightarrow> False
           | Some sats \<Rightarrow> sats > 0 \<and> truthy (dict_get kvs ''tx_hash'' JNull)
                          \<and> instance_int (dict_get kvs ''tx_pos'' JNull) \<noteq> None)
      | _ \<Rightarrow> False)"

definition utxo_of :: "lib \<Rightarrow> string \<Rightarrow> json \<Rightarrow> utxo" where
  "utxo_of L addr utxo_data =
     (case utxo_data of
        JObj kvs \<Rightarrow>
          \<lparr>u_txid = dict_get kvs ''tx_hash'' JNull,
           u_index = the (instance_int (dict_get kvs ''tx_pos'' JNull)),
           u_sats = the (py_int L (dict_get kvs ''value'' (JInt 0))),
           u_script_pubkey = p2pkh L addr\<rparr>
      | _ \<Rightarrow> \<lparr>u_txid = JNull, u_index = 0, u_sats = 0, u_script_pubkey = []\<rparr>)"

text \<open>An entry on which the loop body raises nothing: a dict whose value \<open>int(...)\<close> accepts.\<close>

definition readable :: "lib \<Rightarrow> json \<Rightarrow> bool" where
  "readable L utxo_data =
     (case utxo_data of
        JObj kvs \<Rightarrow> py_int L (dict_get kvs ''value'' (JInt 0)) \<noteq> None
      | _ \<Rightarrow> False)"

text \<open>
  Well-formedness as the specification's words ask for it: a transaction id is a string of
  64 hexadecimal digits, an output index is a non-negative integer (not a boolean).
\<close>

definition hex_digit :: "char \<Rightarrow> bool" where
  "hex_digit c = (c \<in> set ''0123456789abcdefABCDEF'')"

definition spec_well_formed_txid :: "json \<Rightarrow> bool" where
  "spec_well_formed_txid j =
     (case j of JStr s \<Rightarrow> length s = 64 \<and> list_all hex_digit s | _ \<Rightarrow> False)"

definition spec_well_formed_index :: "json \<Rightarrow> bool" where
  "spec_well_formed_index j = (case j of JInt n \<Rightarrow> 0 \<le> n | _ \<Rightarrow> False)"

text \<open>The indexer's answer could not be had or read: the request raised or the status is 4xx/5xx.\<close>

definition query_failed :: "net \<Rightarrow> string \<Rightarrow> bool" where
  "query_failed W url =
     (case http_get W url of ConnFail m \<Rightarrow> True | Reply code body \<Rightarrow> 400 \<le> code \<and> code < 600)"

subsection \<open>Anchor transaction builder\<close>

definition add_input :: "tx \<Rightarrow> json \<Rightarrow> int \<Rightarrow> int \<Rightarrow> string \<Rightarrow> tx" where
  "add_input t i_txid i_index i_sats i_script =
     t\<lparr>inputs := inputs t @ [\<lparr>in_txid = i_txid, in_index = i_index, in_sats = i_sats,
                               in_script_pubkey = i_script\<rparr>]\<rparr>"

definition add_output :: "tx \<Rightarrow> tx_output \<Rightarrow> tx" where
  "add_output t out = t\<lparr>outputs := outputs t @ [out]\<rparr>"

definition TxOutput :: "int \<Rightarrow> string \<Rightarrow> tx_output" where
  "TxOutput sats script = \<lparr>out_sats = sats, out_script_pubkey = script\<rparr>"

definition sign :: "tx \<Rightarrow> key list \<Rightarrow> tx" where
  "sign t keys = t\<lparr>signed_with := keys\<rparr>"

text \<open>
  The rate is the float \<open>0.5\<close>. Halving is exact in binary floating point and an integer
  size below \<open>2^53\<close> converts exactly, so the product is the rational \<open>size / 2\<close>.
\<close>

definition fee_rate :: rat where
  "fee_rate = 1 / 2"

definition create_anchor_tx :: "lib \<Rightarrow> net \<Rightarrow> bsv_service \<Rightarrow> key \<Rightarrow> world \<Rightarrow> (error + tx) \<times> world" where
  "create_anchor_tx L W S derived_key w =
     (case fetch_utxos L W S (address L (wallet_key S)) w of
        (utxos, w') \<Rightarrow>
          (case utxos of
             [] \<Rightarrow> (Inl (NoSpendableUtxos (address L (wallet_key S))), w')
           | utxo_to_spend # _ \<Rightarrow>
               (let t = \<lparr>tx_network = network S, inputs = [], outputs = [], signed_with = []\<rparr>;
                    t = add_input t (u_txid utxo_to_spend) (u_index utxo_to_spend)
                          (u_sats utxo_to_spend) (u_script_pubkey utxo_to_spend);
                    dust_amount = 546;
                    t = add_output t (TxOutput dust_amount (p2pkh L (address L derived_key)));
                    temp_change_sats = 1;
                    temp_change_script = p2pkh L (address L (wallet_key S));
                    t_sized = add_output t (TxOutput temp_change_sats temp_change_script);
                    estimated_size_bytes = estimated_size L t_sized;
                    t = t_sized\<lparr>outputs := butlast (outputs t_sized)\<rparr>;
                    fee = int_of_float (of_int estimated_size_bytes * fee_rate);
                    fee = max 1 fee;
                    change_sats = u_sats utxo_to_spend - dust_amount - fee
                in if change_sats < 0
                   then (Inl (InsufficientFunds (u_txid utxo_to_spend) (u_index utxo_to_spend)
                                (dust_amount + fee) (u_sats utxo_to_spend)), w')
                   else (let t = (if change_sats \<ge> dust_amount
                                  then add_output t (TxOutput change_sats
                                         (p2pkh L (address L (wallet_key S))))
                                  else t)
                         in (Inr (sign t [wallet_key S]), w')))))"

text \<open>
  Names for what the builder computes on the way, to state its properties: the dust
  threshold, the transaction whose size is estimated (one input, the dust output and the
  placeholder change output of 1 satoshi), the fee and the change.
\<close>

definition dust :: int where
  "dust = 546"

definition provisional_tx :: "lib \<Rightarrow> bsv_service \<Rightarrow> key \<Rightarrow> utxo \<Rightarrow> tx" where
  "provisional_tx L S derived_key u =
     \<lparr>tx_network = network S,
      inputs = [\<lparr>in_txid = u_txid u, in_index = u_index u, in_sats = u_sats u,
                 in_script_pubkey = u_script_pubkey u\<rparr>],
      outputs = [\<lparr>out_sats = 546, out_script_pubkey = p2pkh L (address L derived_key)\<rparr>,
                 \<lparr>out_sats = 1, out_script_pubkey = p2pkh L (address L (wallet_key S))\<rparr>],
      signed_with = []\<rparr>"

definition anchor_fee :: "lib \<Rightarrow> bsv_service \<Rightarrow> key \<Rightarrow> utxo \<Rightarrow> int" where
  "anchor_fee L S derived_key u =
     max 1 (int_of_float (of_int (estimated_size L (provisional_tx L S derived_key u)) * fee_rate))"

definition anchor_change :: "lib \<Rightarrow> bsv_service \<Rightarrow> key \<Rightarrow> utxo \<Rightarrow> int" where
  "anchor_change L S derived_key u = u_sats u - dust - anchor_fee L S derived_key u"

text \<open>The fee as the specification words it.\<close>

definition spec_fee :: "int \<Rightarrow> rat \<Rightarrow> int" where
  "spec_fee estimated_size_bytes rate = max 1 \<lceil>of_int estimated_size_bytes * rate\<rceil>"

text \<open>The transaction the builder returns when the change is not negative.\<close>

definition built_tx :: "lib \<Rightarrow> bsv_service \<Rightarrow> key \<Rightarrow> utxo \<Rightarrow> tx" where
  "built_tx L S derived_key u =
     \<lparr>tx_network = network S,
      inputs = [\<lparr>in_txid = u_txid u, in_index = u_index u, in_sats = u_sats u,
                 in_script_pubkey = u_script_pubkey u\<rparr>],
      outputs = \<lparr>out_sats = 546, out_script_pubkey = p2pkh L (address L derived_key)\<rparr>
                # (if anchor_change L S derived_key u \<ge> 546
                   then [\<lparr>out_sats = anchor_change L S derived_key u,
                           out_script_pubkey = p2pkh L (address L (wallet_key S))\<rparr>]
                   else []),
      signed_with = [wallet_key S]\<rparr>"

definition total_out :: "tx \<Rightarrow> int" where
  "total_out t = sum_list (map out_sats (outputs t))"

definition total_in :: "tx \<Rightarrow> int" where
  "total_in t = sum_list (map in_sats (inputs t))"

subsection \<open>Broadcaster\<close>

definition submit_url :: "bsv_service \<Rightarrow> string" where
  "submit_url S = WOC_API_BASE_URL @ ''/'' @ network S @ ''/tx/raw''"

text \<open>
  Only a \<open>RequestException\<close> is caught and raised again as the broadcast failure. The
  response text is stripped of whitespace, then of double quotes (code point 34).
\<close>

definition broadcast_tx :: "lib \<Rightarrow> net \<Rightarrow> bsv_service \<Rightarrow> tx \<Rightarrow> world \<Rightarrow> (error + string) \<times> world" where
  "broadcast_tx L W S t w =
     (let hex = tx_hex L t;
          url = submit_url S;
          w' = w\<lparr>trace := trace w @ [Submitted url hex]\<rparr>
      in case http_post W url hex of
           ConnFail m \<Rightarrow> (Inl (BroadcastError (RequestException m)), w')
         | Reply code body \<Rightarrow>
             (case raise_for_status code of
                Inl e \<Rightarrow> (Inl (BroadcastError e), w')
              | Inr _ \<Rightarrow>
                  (let txid_response = strip_chars [CHR 0x22] (strip body)
                   in if txid_response = txid L t
                      then (Inr txid_response, w')
                      else (Inr (txid L t),
                            w'\<lparr>trace := trace w' @ [Warning txid_response]\<rparr>))))"

text \<open>The submission could not be made or was rejected.\<close>

definition submission_failed :: "lib \<Rightarrow> net \<Rightarrow> bsv_service \<Rightarrow> tx \<Rightarrow> bool" where
  "submission_failed L W S t =
     (case http_post W (submit_url S) (tx_hex L t) of
        ConnFail m \<Rightarrow> True
      | Reply code body \<Rightarrow> 400 \<le> code \<and> code < 600)"

subsection \<open>Orchestrator\<close>

definition db_call :: "event \<Rightarrow> world \<Rightarrow> world" where
  "db_call ev w = w\<lparr>trace := trace w @ [ev]\<rparr>"

definition set_issuer_url ::
  "lib \<Rightarrow> net \<Rightarrow> bsv_service \<Rightarrow> string \<Rightarrow> string \<Rightarrow> world \<Rightarrow> (error + string option) \<times> world" where
  "set_issuer_url L W S issuer_id new_issuer_url w =
     (let w0 = db_call (DbUpdateIssuerUrl issuer_id new_issuer_url) w
      in case update_issuer_url (db_service S) issuer_id new_issuer_url (db w0) of
           Inl db_err \<Rightarrow> (Inl (PersistenceFailure db_err), w0)
         | Inr d1 \<Rightarrow>
             (let w1 = w0\<lparr>db := d1\<rparr>;
                  derived_key = derive_brc42_key L S (''issuer/'' @ issuer_id) VCSL_PROTOCOL_ID
              in case create_anchor_tx L W S derived_key w1 of
                   (Inl e, w2) \<Rightarrow> (Inr None, w2)
                 | (Inr anchor_tx, w2) \<Rightarrow>
                     (case broadcast_tx L W S anchor_tx w2 of
                        (Inl e, w3) \<Rightarrow> (Inr None, w3)
                      | (Inr txid', w3) \<Rightarrow>
                          (let w4 = db_call (DbStoreIssuerAnchor issuer_id txid') w3
                           in case store_issuer_anchor (db_service S) issuer_id txid' (db w4) of
                                Inl db_err \<Rightarrow>
                                  (Inr (Some txid'),
                                   w4\<lparr>trace := trace w4 @ [Warning txid']\<rparr>)
                              | Inr d2 \<Rightarrow> (Inr (Some txid'), w4\<lparr>db := d2\<rparr>)))))"

definition add_vcsl ::
  "lib \<Rightarrow> net \<Rightarrow> bsv_service \<Rightarrow> string \<Rightarrow> string \<Rightarrow> world \<Rightarrow> (error + string) \<times> world" where
  "add_vcsl L W S vid ipns w =
     (let derived_key = derive_brc42_key L S (''vcsl/'' @ vid) VCSL_PROTOCOL_ID
      in case create_anchor_tx L W S derived_key w of
           (Inl e, w1) \<Rightarrow> (Inl (AnchorFailed vid e), w1)
         | (Inr anchor_tx, w1) \<Rightarrow>
             (case broadcast_tx L W S anchor_tx w1 of
                (Inl e, w2) \<Rightarrow> (Inl (AnchorFailed vid e), w2)
              | (Inr txid', w2) \<Rightarrow>
                  (let w3 = db_call (DbStoreVcsl vid ipns txid') w2
                   in case store_vcsl (db_service S) vid ipns txid' (db w3) of
                        Inr d1 \<Rightarrow> (Inr txid', w3\<lparr>db := d1\<rparr>)
                      | Inl db_err \<Rightarrow> (Inl (ReconciliationRequired vid txid' db_err), w3))))"

text \<open>
  The getters catch every exception of the store. \<open>get_vcsl\<close> unpacks what the store
  returns into two names, which raises \<open>TypeError\<close> on \<open>None\<close>, inside the \<open>try\<close>.
\<close>

definition get_issuer_url :: "bsv_service \<Rightarrow> string \<Rightarrow> world \<Rightarrow> (string \<times> string option) option" where
  "get_issuer_url S issuer_id w =
     (case db_get_issuer_url (db_service S) issuer_id (db w) of
        Inr url \<Rightarrow> url
      | Inl db_err \<Rightarrow> None)"

definition get_vcsl :: "bsv_service \<Rightarrow> string \<Rightarrow> world \<Rightarrow> string option \<times> string option" where
  "get_vcsl S vid w =
     (case db_get_vcsl (db_service S) vid (db w) of
        Inr (Some (ipns, txid')) \<Rightarrow> (Some ipns, Some txid')
      | Inr None \<Rightarrow> (None, None)
      | Inl db_err \<Rightarrow> (None, None))"

text \<open>The events of a trace that are calls of a writing method of the store.\<close>

fun is_store_write :: "event \<Rightarrow> bool" where
  "is_store_write (DbUpdateIssuerUrl i u) = True"
| "is_store_write (DbStoreIssuerAnchor i t) = True"
| "is_store_write (DbStoreVcsl i p t) = True"
| "is_store_write _ = False"

fun is_network_call :: "event \<Rightarrow> bool" where
  "is_network_call (Fetched u) = True"
| "is_network_call (Submitted u h) = True"
| "is_network_call _ = False"

subsection \<open>The three anchoring steps\<close>

text \<open>
  Both orchestrating methods run the same three statements inside a \<open>try\<close>: derive the key
  for the context, build the transaction, broadcast it. \<open>anchor\<close> names that sequence.
\<close>

definition anchor :: "lib \<Rightarrow> net \<Rightarrow> bsv_service \<Rightarrow> string \<Rightarrow> world \<Rightarrow> (error + string) \<times> world" where
  "anchor L W S key_id w =
     (case create_anchor_tx L W S (derive_brc42_key L S key_id VCSL_PROTOCOL_ID) w of
        (Inl e, w1) \<Rightarrow> (Inl e, w1)
      | (Inr anchor_tx, w1) \<Rightarrow> broadcast_tx L W S anchor_tx w1)"

section \<open>PostgresDataStore\<close>

text \<open>
  A method raises when the pool has not been initialised, and raises again whatever the
  connection or the statement raises. The class has no method \<open>update_issuer_url\<close> or
  \<open>store_issuer_anchor\<close>: calling either raises \<open>AttributeError\<close>.
\<close>

definition pg_store_issuer_url :: "string \<Rightarrow> string \<Rightarrow> string option \<Rightarrow> store \<Rightarrow> error + store" where
  "pg_store_issuer_url issuer_id url txid' st =
     (if \<not> pool st then Inl (StoreError ''Connection pool not initialized. Call init_connections first.'')
      else if \<not> reachable st then Inl (StoreError ''connection failed'')
      else Inr (st\<lparr>issuer_urls := (issuer_urls st)(issuer_id \<mapsto> (url, txid'))\<rparr>))"

definition pg_get_issuer_url :: "string \<Rightarrow> store \<Rightarrow> error + (string \<times> string option) option" where
  "pg_get_issuer_url issuer_id st =
     (if \<not> pool st then Inl (StoreError ''Connection pool not initialized. Call init_connections first.'')
      else if \<not> reachable st then Inl (StoreError ''connection failed'')
      else Inr (issuer_urls st issuer_id))"

definition pg_store_vcsl :: "string \<Rightarrow> string \<Rightarrow> string \<Rightarrow> store \<Rightarrow> error + store" where
  "pg_store_vcsl vid ipns txid' st =
     (if \<not> pool st then Inl (StoreError ''Connection pool not initialized. Call init_connections first.'')
      else if \<not> reachable st then Inl (StoreError ''connection failed'')
      else Inr (st\<lparr>vcsl_data := (vcsl_data st)(vid \<mapsto> (ipns, txid'))\<rparr>))"

definition pg_get_vcsl :: "string \<Rightarrow> store \<Rightarrow> error + (string \<times> string) option" where
  "pg_get_vcsl vid st =
     (if \<not> pool st then Inl (StoreError ''Connection pool not initialized. Call init_connections first.'')
      else if \<not> reachable st then Inl (StoreError ''connection failed'')
      else Inr (vcsl_data st vid))"

definition PostgresDataStore :: db_api where
  "PostgresDataStore =
     \<lparr>update_issuer_url = (\<lambda>i u st. Inl (PyError ''AttributeError: update_issuer_url'')),
      store_issuer_anchor = (\<lambda>i t st. Inl (PyError ''AttributeError: store_issuer_anchor'')),
      store_vcsl = pg_store_vcsl,
      db_get_issuer_url = pg_get_issuer_url,
      db_get_vcsl = pg_get_vcsl\<rparr>"

section \<open>VcslRouter\<close>

text \<open>
  The \<open>HTTPException\<close> with status 404 is raised inside the \<open>try\<close> whose \<open>except Exception\<close>
  clause raises the one with status 500, and \<open>HTTPException\<close> is an \<open>Exception\<close>.
\<close>

definition router_get_issuer_url ::
  "bsv_service \<Rightarrow> string \<Rightarrow> world \<Rightarrow> error + string \<times> (string \<times> string option)" where
  "router_get_issuer_url S issuer_id w =
     (let tried =
            (case get_issuer_url S issuer_id w of
               None \<Rightarrow> Inl (HTTPException 404 (''Issuer URL not found for '' @ issuer_id) None)
             | Some url \<Rightarrow> Inr (issuer_id, url))
      in case tried of
           Inl e \<Rightarrow> Inl (HTTPException 500 ''Error retrieving issuer URL: '' (Some e))
         | Inr r \<Rightarrow> Inr r)"

definition router_get_vcsl ::
  "bsv_service \<Rightarrow> string \<Rightarrow> world \<Rightarrow> error + string \<times> string option \<times> string option" where
  "router_get_vcsl S vid w =
     (let tried =
            (case get_vcsl S vid w of
               (None, txid') \<Rightarrow> Inl (HTTPException 404 (''VCSL data not found for id '' @ vid) None)
             | (Some ipns, txid') \<Rightarrow> Inr (vid, Some ipns, txid'))
      in case tried of
           Inl e \<Rightarrow> Inl (HTTPException 500 ''Error retrieving VCSL data: '' (Some e))
         | Inr r \<Rightarrow> Inr r)"

section \<open>Concrete instances\<close>

text \<open>
  A small library, network, store and service on which the definitions evaluate: the size
  estimate and the decoded answer of the indexer are given, the answers of the network are
  the same for every request.
\<close>

definition demo_key :: key where
  "demo_key = \<lparr>private_int = 7, key_network = ''test''\<rparr>"

definition demo_lib :: "int \<Rightarrow> json \<Rightarrow> lib" where
  "demo_lib sz data =
     \<lparr>curve_N = 23,
      hmac_sha256 = (\<lambda>k m. [1, 2]),
      private_bytes = (\<lambda>k. [7]),
      address = (\<lambda>k. if private_int k = 7 then ''A'' else ''D''),
      p2pkh = (\<lambda>a. ''76a914'' @ a @ ''88ac''),
      estimated_size = (\<lambda>t. sz),
      tx_hex = (\<lambda>t. ''0100''),
      txid = (\<lambda>t. ''beef''),
      int_of_str = (\<lambda>s. None),
      json_loads = (\<lambda>s. Some data)\<rparr>"

definition demo_net :: "http_reply \<Rightarrow> http_reply \<Rightarrow> net" where
  "demo_net g p = \<lparr>http_get = (\<lambda>u. g), http_post = (\<lambda>u h. p)\<rparr>"

definition one_utxo :: "int \<Rightarrow> json" where
  "one_utxo v = JArr [JObj [(''tx_hash'', JStr ''aa''), (''tx_pos'', JInt 0), (''value'', JInt v)]]"

text \<open>
  An answer of the indexer with one usable entry, one of value 0, one without transaction
  id and one whose output index is a string.
\<close>

definition mixed_items :: "json list" where
  "mixed_items =
     [JObj [(''tx_hash'', JStr ''aa''), (''tx_pos'', JInt 0), (''value'', JInt 2000)],
      JObj [(''tx_hash'', JStr ''bb''), (''tx_pos'', JInt 1), (''value'', JInt 0)],
      JObj [(''tx_pos'', JInt 2), (''value'', JInt 5)],
      JObj [(''tx_hash'', JStr ''cc''), (''tx_pos'', JStr ''3''), (''value'', JInt 7)]]"

text \<open>
  An answer of the indexer whose entries have a positive value, a transaction id that is a
  number or a string that is no hash, and an output index that is negative or a boolean.
\<close>

definition malformed_utxos :: json where
  "malformed_utxos =
     JArr [JObj [(''tx_hash'', JInt 7), (''tx_pos'', JInt (- 1)), (''value'', JInt 1)],
           JObj [(''tx_hash'', JStr ''not hex!''), (''tx_pos'', JBool True), (''value'', JInt 1)]]"

definition mixed_utxos :: json where
  "mixed_utxos = JArr mixed_items"

definition demo_store :: store where
  "demo_store = \<lparr>pool = True, reachable = True, issuer_urls = Map.empty, vcsl_data = Map.empty\<rparr>"

definition demo_world :: world where
  "demo_world = \<lparr>db = demo_store, trace = []\<rparr>"

text \<open>
  A store that has the two methods \<open>set_issuer_url\<close> calls; \<open>anchor_ok\<close> says whether
  recording the anchor succeeds.
\<close>

definition demo_db :: "bool \<Rightarrow> db_api" where
  "demo_db anchor_ok =
     \<lparr>update_issuer_url = (\<lambda>i u st. pg_store_issuer_url i u None st),
      store_issuer_anchor =
        (\<lambda>i t st. if anchor_ok
                   then (case issuer_urls st i of
                           None \<Rightarrow> Inl (StoreError ''no such issuer'')
                         | Some (u, old) \<Rightarrow> pg_store_issuer_url i u (Some t) st)
                   else Inl (StoreError ''write rejected'')),
      store_vcsl = pg_store_vcsl,
      db_get_issuer_url = pg_get_issuer_url,
      db_get_vcsl = pg_get_vcsl\<rparr>"

definition demo_service :: "db_api \<Rightarrow> bsv_service" where
  "demo_service api = \<lparr>db_service = api, network = ''test'', wallet_key = demo_key\<rparr>"

definition demo_derived :: key where
  "demo_derived = \<lparr>private_int = 12, key_network = ''test''\<rparr>"

definition demo_utxo :: "int \<Rightarrow> utxo" where
  "demo_utxo v = \<lparr>u_txid = JStr ''aa'', u_index = 0, u_sats = v, u_script_pubkey = ''76a914A88ac''\<rparr>"

definition demo_S :: bsv_service where
  "demo_S = demo_service PostgresDataStore"

definition demo_W :: net where
  "demo_W = demo_net (Reply 200 []) (Reply 200 ''beef'')"

definition demo_tx :: tx where
  "demo_tx =
     \<lparr>tx_network = ''test'',
      inputs = [\<lparr>in_txid = JStr ''aa'', in_index = 0, in_sats = 2000,
                 in_script_pubkey = ''76a914A88ac''\<rparr>],
      outputs = [\<lparr>out_sats = 546, out_script_pubkey = ''76a914D88ac''\<rparr>,
                 \<lparr>out_sats = 1342, out_script_pubkey = ''76a914A88ac''\<rparr>],
      signed_with = [demo_key]\<rparr>"

text \<open>The same world with a store that cannot be reached.\<close>

definition down_world :: world where
  "down_world = \<lparr>db = demo_store\<lparr>reachable := False\<rparr>, trace = []\<rparr>"

text \<open>A store that holds one issuer and one VCSL record, reachable and not.\<close>

definition present_world :: world where
  "present_world =
     \<lparr>db = \<lparr>pool = True, reachable = True,
            issuer_urls = [''i'' \<mapsto> (''https://issuer.example'', None)],
            vcsl_data = [''v'' \<mapsto> (''ipns1'', ''beef'')]\<rparr>,
      trace = []\<rparr>"

definition present_unreachable :: world where
  "present_unreachable =
     \<lparr>db = \<lparr>pool = True, reachable = False,
            issuer_urls = [''i'' \<mapsto> (''https://issuer.example'', None)],
            vcsl_data = [''v'' \<mapsto> (''ipns1'', ''beef'')]\<rparr>,
      trace = []\<rparr>"

definition demo_fetched :: world where
  "demo_fetched =
     \<lparr>db = demo_store,
      trace = [Fetched ''https://api.whatsonchain.com/v1/bsv/test/address/A/unspent'']\<rparr>"

section \<open>Properties of the key derivation\<close>

lemma big_endian_value_snoc:
  "big_endian_value (bs @ [b]) = big_endian_value bs * 256 + int b"
proof -
  have "(\<Sum>i<length bs. int ((bs @ [b]) ! i) * 256 ^ (length bs - i))
        = (\<Sum>i<length bs. (int (bs ! i) * 256 ^ (length bs - 1 - i)) * 256)"
  proof (rule sum.cong)
    fix i assume "i \<in> {..<length bs}"
    then have i: "i < length bs" by simp
    then have "length bs - i = Suc (length bs - 1 - i)" by simp
    then show "int ((bs @ [b]) ! i) * 256 ^ (length bs - i)
               = (int (bs ! i) * 256 ^ (length bs - 1 - i)) * 256"
      using i by (simp add: nth_append)
  qed simp
  then show ?thesis
    by (simp add: big_endian_value_def sum_distrib_right)
qed

lemma from_bytes_big_snoc: "from_bytes_big (bs @ [b]) = from_bytes_big bs * 256 + int b"
  by (simp add: from_bytes_big_def)

lemma from_bytes_big_value: "from_bytes_big bs = big_endian_value bs"
proof (induction bs rule: rev_induct)
  case Nil
  show ?case by (simp add: from_bytes_big_def big_endian_value_def)
next
  case (snoc b bs)
  then show ?case by (simp only: from_bytes_big_snoc big_endian_value_snoc)
qed

text \<open>
  C1. For every master key (the service's wallet key) and every context, the derived key
  has the private scalar \<open>(masterScalar + s) mod N\<close>, where \<open>s\<close> is the HMAC-SHA256 digest,
  keyed by the master key's private bytes, of the UTF-8 bytes of \<open>protocol/key_id\<close>, read
  as a big-endian unsigned integer; the key is on the service's network. The derived key is
  that function of the master key, the network and the context and of nothing else, so two
  calls with the same master key and context give the same scalar and the same address.
\<close>

theorem derive_brc42_key_scalar:
  "private_int (derive_brc42_key L S key_id protocol)
     = spec_child_scalar L (wallet_key S) (protocol @ ''/'' @ key_id)
   \<and> key_network (derive_brc42_key L S key_id protocol) = network S
   \<and> derive_brc42_key L S key_id protocol
     = Key_from_int (spec_child_scalar L (wallet_key S) (protocol @ ''/'' @ key_id)) (network S)
   \<and> address L (derive_brc42_key L S key_id protocol)
     = address L (Key_from_int (spec_child_scalar L (wallet_key S) (protocol @ ''/'' @ key_id))
                    (network S))"
  by (simp add: derive_brc42_key_def spec_child_scalar_def Key_from_int_def
      from_bytes_big_value Let_def)

section \<open>Properties of the anchor transaction builder\<close>

lemma int_of_float_half: "max 1 (int_of_float (of_int n * fee_rate)) = max 1 (n div 2)"
proof (cases "0 \<le> n")
  case True
  have "\<lfloor>(of_int n :: rat) / 2\<rfloor> = n div 2"
    using floor_divide_of_int_eq[of n 2, where ?'a = rat] by simp
  with True show ?thesis
    by (simp add: int_of_float_def fee_rate_def)
next
  case False
  then have n: "n < 0" by simp
  then have "(of_int n :: rat) * (1 / 2) < 0" by simp
  moreover have "\<lceil>(of_int n :: rat) * (1 / 2)\<rceil> \<le> 0"
    using n by (simp add: ceiling_le_iff)
  moreover have "n div 2 \<le> 0" using n by simp
  ultimately show ?thesis
    by (simp add: int_of_float_def fee_rate_def)
qed

lemma create_anchor_tx_empty:
  "fetch_utxos L W S (address L (wallet_key S)) w = ([], w')
   \<Longrightarrow> create_anchor_tx L W S dk w = (Inl (NoSpendableUtxos (address L (wallet_key S))), w')"
  by (simp add: create_anchor_tx_def)

lemma create_anchor_tx_cons:
  "fetch_utxos L W S (address L (wallet_key S)) w = (u # us, w')
   \<Longrightarrow> create_anchor_tx L W S dk w =
       (if anchor_change L S dk u < 0
        then Inl (InsufficientFunds (u_txid u) (u_index u) (546 + anchor_fee L S dk u) (u_sats u))
        else Inr (built_tx L S dk u), w')"
  by (simp add: create_anchor_tx_def built_tx_def anchor_change_def anchor_fee_def provisional_tx_def
      dust_def add_input_def add_output_def TxOutput_def sign_def Let_def)

lemma create_anchor_tx_fst_cons:
  assumes "fst (fetch_utxos L W S (address L (wallet_key S)) w) = u # us"
  shows "fst (create_anchor_tx L W S dk w) =
       (if anchor_change L S dk u < 0
        then Inl (InsufficientFunds (u_txid u) (u_index u) (546 + anchor_fee L S dk u) (u_sats u))
        else Inr (built_tx L S dk u))"
proof -
  obtain w' where "fetch_utxos L W S (address L (wallet_key S)) w = (u # us, w')"
    using assms by (cases "fetch_utxos L W S (address L (wallet_key S)) w") simp
  then show ?thesis by (simp add: create_anchor_tx_cons)
qed

lemma create_anchor_tx_fst_empty:
  assumes "fst (fetch_utxos L W S (address L (wallet_key S)) w) = []"
  shows "fst (create_anchor_tx L W S dk w) = Inl (NoSpendableUtxos (address L (wallet_key S)))"
proof -
  obtain w' where "fetch_utxos L W S (address L (wallet_key S)) w = ([], w')"
    using assms by (cases "fetch_utxos L W S (address L (wallet_key S)) w") simp
  then show ?thesis by (simp add: create_anchor_tx_empty)
qed

lemma create_anchor_tx_Inr:
  assumes "fst (create_anchor_tx L W S dk w) = Inr t"
  shows "\<exists>u us. fst (fetch_utxos L W S (address L (wallet_key S)) w) = u # us
                \<and> 0 \<le> anchor_change L S dk u \<and> t = built_tx L S dk u"
proof (cases "fst (fetch_utxos L W S (address L (wallet_key S)) w)")
  case Nil
  then show ?thesis using assms by (simp add: create_anchor_tx_fst_empty)
next
  case (Cons u us)
  then show ?thesis using assms
    by (auto simp: create_anchor_tx_fst_cons split: if_splits)
qed

lemma total_in_built: "total_in (built_tx L S dk u) = u_sats u"
  by (simp add: built_tx_def total_in_def)

lemma total_out_built:
  "total_out (built_tx L S dk u)
   = 546 + (if 546 \<le> anchor_change L S dk u then anchor_change L S dk u else 0)"
  by (simp add: built_tx_def total_out_def)

text \<open>Evaluation on the concrete instances.\<close>

lemmas demo_defs = demo_lib_def demo_net_def demo_service_def demo_world_def demo_store_def
  demo_key_def one_utxo_def demo_derived_def demo_utxo_def demo_S_def demo_W_def demo_fetched_def

lemmas fetch_defs = fetch_utxos_def unspent_url_def raise_for_status_def dict_get_def Let_def
  WOC_API_BASE_URL_def

lemma demo_fetch:
  "0 < v \<Longrightarrow> fetch_utxos (demo_lib sz (one_utxo v)) demo_W demo_S ''A'' demo_world
   = ([demo_utxo v], demo_fetched)"
  by (simp add: demo_defs fetch_defs)

lemma demo_address: "address (demo_lib sz d) (wallet_key demo_S) = ''A''"
  by (simp add: demo_defs)

lemma demo_fee: "anchor_fee (demo_lib sz d) demo_S demo_derived u = max 1 (sz div 2)"
  by (simp add: anchor_fee_def int_of_float_half demo_lib_def)

lemma demo_utxo_sats: "u_sats (demo_utxo v) = v"
  by (simp add: demo_utxo_def)

lemma demo_fetch_fst:
  "0 < v \<Longrightarrow> fst (fetch_utxos (demo_lib sz (one_utxo v)) demo_W demo_S
            (address (demo_lib sz (one_utxo v)) (wallet_key demo_S)) demo_world) = demo_utxo v # []"
  by (simp add: demo_address demo_fetch)

text \<open>
  C2 (as the code has it). The fee the builder charges is \<open>max(1, floor(size * 0.5))\<close>, that
  is \<open>max 1 (size div 2)\<close>, where \<open>size\<close> is the estimate for the transaction with the
  placeholder change output present: \<open>int(...)\<close> truncates, it does not round up. The fee is
  at least 1, and at an estimated size of 225 bytes it is 112. It is the fee in the amount
  the builder reports as needed when the funds do not suffice, and it is the difference
  between input and outputs whenever a change output is paid.
\<close>

theorem anchor_fee_floor:
  "anchor_fee L S dk u = max 1 (estimated_size L (provisional_tx L S dk u) div 2)
   \<and> 1 \<le> anchor_fee L S dk u
   \<and> (estimated_size L (provisional_tx L S dk u) = 225 \<longrightarrow> anchor_fee L S dk u = 112)
   \<and> (fst (fetch_utxos L W S (address L (wallet_key S)) w) = u # us \<longrightarrow>
        (u_sats u < 546 + anchor_fee L S dk u \<longrightarrow>
           fst (create_anchor_tx L W S dk w)
           = Inl (InsufficientFunds (u_txid u) (u_index u) (546 + anchor_fee L S dk u) (u_sats u)))
      \<and> (546 + anchor_fee L S dk u + 546 \<le> u_sats u \<longrightarrow>
           (\<exists>t. fst (create_anchor_tx L W S dk w) = Inr t
                \<and> total_in t - total_out t = anchor_fee L S dk u)))"
proof -
  have fee: "anchor_fee L S dk u = max 1 (estimated_size L (provisional_tx L S dk u) div 2)"
    by (simp add: anchor_fee_def int_of_float_half)
  have low: "fst (create_anchor_tx L W S dk w)
           = Inl (InsufficientFunds (u_txid u) (u_index u) (546 + anchor_fee L S dk u) (u_sats u))"
    if "fst (fetch_utxos L W S (address L (wallet_key S)) w) = u # us"
      and "u_sats u < 546 + anchor_fee L S dk u"
    using that by (simp add: create_anchor_tx_fst_cons anchor_change_def dust_def)
  have high: "\<exists>t. fst (create_anchor_tx L W S dk w) = Inr t
                \<and> total_in t - total_out t = anchor_fee L S dk u"
    if "fst (fetch_utxos L W S (address L (wallet_key S)) w) = u # us"
      and "546 + anchor_fee L S dk u + 546 \<le> u_sats u"
  proof -
    have c: "546 \<le> anchor_change L S dk u"
      using that(2) by (simp add: anchor_change_def dust_def)
    then have "fst (create_anchor_tx L W S dk w) = Inr (built_tx L S dk u)"
      using that(1) by (simp add: create_anchor_tx_fst_cons)
    moreover have "total_in (built_tx L S dk u) - total_out (built_tx L S dk u) = anchor_fee L S dk u"
      using c by (simp add: total_in_built total_out_built anchor_change_def dust_def)
    ultimately show ?thesis by blast
  qed
  show ?thesis
    using fee low high by simp
qed

theorem anchor_fee_floor_witness:
  "estimated_size (demo_lib 225 (one_utxo 2000))
       (provisional_tx (demo_lib 225 (one_utxo 2000)) demo_S demo_derived (demo_utxo 2000)) = 225
   \<and> fst (fetch_utxos (demo_lib 225 (one_utxo 2000)) demo_W demo_S
            (address (demo_lib 225 (one_utxo 2000)) (wallet_key demo_S)) demo_world)
       = demo_utxo 2000 # []
   \<and> 546 + anchor_fee (demo_lib 225 (one_utxo 2000)) demo_S demo_derived (demo_utxo 2000) + 546
       \<le> u_sats (demo_utxo 2000)
   \<and> anchor_fee (demo_lib 225 (one_utxo 2000)) demo_S demo_derived (demo_utxo 2000) = 112
   \<and> (\<exists>t. fst (create_anchor_tx (demo_lib 225 (one_utxo 2000)) demo_W demo_S demo_derived demo_world)
            = Inr t \<and> total_in t - total_out t = 112)"
proof -
  have sz: "estimated_size (demo_lib 225 (one_utxo 2000))
       (provisional_tx (demo_lib 225 (one_utxo 2000)) demo_S demo_derived (demo_utxo 2000)) = 225"
    by (simp add: demo_lib_def)
  have f: "fst (fetch_utxos (demo_lib 225 (one_utxo 2000)) demo_W demo_S
            (address (demo_lib 225 (one_utxo 2000)) (wallet_key demo_S)) demo_world) = demo_utxo 2000 # []"
    by (simp add: demo_address demo_fetch)
  show ?thesis
    using anchor_fee_floor[of "demo_lib 225 (one_utxo 2000)" demo_S demo_derived "demo_utxo 2000"
        demo_W demo_world "[]"] sz f
    by (auto simp: demo_utxo_sats)
qed

text \<open>
  C2 as stated fails: at an estimated size of 225 bytes and the rate 0.5 the specification's
  \<open>max(1, ceil(size * rate))\<close> is 113, the builder's fee is 112 and a funding output of 2000
  satoshis yields a transaction that leaves 112 satoshis to the network.
\<close>

theorem fee_ceiling_counterexample:
  "estimated_size (demo_lib 225 (one_utxo 2000))
       (provisional_tx (demo_lib 225 (one_utxo 2000)) demo_S demo_derived (demo_utxo 2000)) = 225
   \<and> anchor_fee (demo_lib 225 (one_utxo 2000)) demo_S demo_derived (demo_utxo 2000) = 112
   \<and> spec_fee 225 fee_rate = 113
   \<and> fst (create_anchor_tx (demo_lib 225 (one_utxo 2000)) demo_W demo_S demo_derived demo_world)
       = Inr (built_tx (demo_lib 225 (one_utxo 2000)) demo_S demo_derived (demo_utxo 2000))
   \<and> total_in (built_tx (demo_lib 225 (one_utxo 2000)) demo_S demo_derived (demo_utxo 2000))
       - total_out (built_tx (demo_lib 225 (one_utxo 2000)) demo_S demo_derived (demo_utxo 2000))
     = 112"
proof -
  have f: "fst (fetch_utxos (demo_lib 225 (one_utxo 2000)) demo_W demo_S
            (address (demo_lib 225 (one_utxo 2000)) (wallet_key demo_S)) demo_world) = [demo_utxo 2000]"
    by (simp add: demo_address demo_fetch)
  have fee: "anchor_fee (demo_lib 225 (one_utxo 2000)) demo_S demo_derived (demo_utxo 2000) = 112"
    by (simp add: demo_fee)
  have ch: "anchor_change (demo_lib 225 (one_utxo 2000)) demo_S demo_derived (demo_utxo 2000) = 1342"
    by (simp add: anchor_change_def fee dust_def demo_utxo_sats)
  have "\<lceil>(225 :: rat) / 2\<rceil> = 113"
    by (rule ceiling_unique) simp_all
  then have sp: "spec_fee 225 fee_rate = 113"
    by (simp add: spec_fee_def fee_rate_def)
  have sz: "estimated_size (demo_lib 225 (one_utxo 2000))
       (provisional_tx (demo_lib 225 (one_utxo 2000)) demo_S demo_derived (demo_utxo 2000)) = 225"
    by (simp add: demo_lib_def)
  show ?thesis
    using create_anchor_tx_fst_cons[OF f, of demo_derived] fee ch sp sz
    by (simp add: total_in_built total_out_built demo_utxo_sats)
qed

text \<open>
  C3. The builder computes \<open>change = value - dust - fee\<close> for the selected output (the first
  one fetched) and raises the insufficient-funds exception exactly when an output was
  selected and the change is negative. At \<open>value = dust + fee - 1\<close> it raises it; at
  \<open>value = dust + fee\<close> it returns a transaction whose only output is the dust output.
\<close>

theorem insufficient_funds_iff:
  "((\<exists>a b c d. fst (create_anchor_tx L W S dk w) = Inl (InsufficientFunds a b c d))
      \<longleftrightarrow> (\<exists>u us. fst (fetch_utxos L W S (address L (wallet_key S)) w) = u # us
                  \<and> u_sats u - dust - anchor_fee L S dk u < 0))
   \<and> (fst (fetch_utxos L W S (address L (wallet_key S)) w) = u # us \<longrightarrow>
        u_sats u = dust + anchor_fee L S dk u - 1 \<longrightarrow>
        fst (create_anchor_tx L W S dk w)
        = Inl (InsufficientFunds (u_txid u) (u_index u) (dust + anchor_fee L S dk u) (u_sats u)))
   \<and> (fst (fetch_utxos L W S (address L (wallet_key S)) w) = u # us \<longrightarrow>
        u_sats u = dust + anchor_fee L S dk u \<longrightarrow>
        (\<exists>t. fst (create_anchor_tx L W S dk w) = Inr t
             \<and> outputs t = [\<lparr>out_sats = dust, out_script_pubkey = p2pkh L (address L dk)\<rparr>]))"
proof (intro conjI impI)
  show "(\<exists>a b c d. fst (create_anchor_tx L W S dk w) = Inl (InsufficientFunds a b c d))
      \<longleftrightarrow> (\<exists>u us. fst (fetch_utxos L W S (address L (wallet_key S)) w) = u # us
                  \<and> u_sats u - dust - anchor_fee L S dk u < 0)"
  proof (cases "fst (fetch_utxos L W S (address L (wallet_key S)) w)")
    case Nil
    then show ?thesis by (simp add: create_anchor_tx_fst_empty)
  next
    case (Cons v vs)
    then show ?thesis
      by (simp add: create_anchor_tx_fst_cons anchor_change_def)
  qed
next
  assume "fst (fetch_utxos L W S (address L (wallet_key S)) w) = u # us"
    and "u_sats u = dust + anchor_fee L S dk u - 1"
  then show "fst (create_anchor_tx L W S dk w)
        = Inl (InsufficientFunds (u_txid u) (u_index u) (dust + anchor_fee L S dk u) (u_sats u))"
    by (simp add: create_anchor_tx_fst_cons anchor_change_def dust_def)
next
  assume f: "fst (fetch_utxos L W S (address L (wallet_key S)) w) = u # us"
    and v: "u_sats u = dust + anchor_fee L S dk u"
  have c: "anchor_change L S dk u = 0"
    using v by (simp add: anchor_change_def)
  have "fst (create_anchor_tx L W S dk w) = Inr (built_tx L S dk u)"
    using f c by (simp add: create_anchor_tx_fst_cons)
  moreover have "outputs (built_tx L S dk u)
                 = [\<lparr>out_sats = dust, out_script_pubkey = p2pkh L (address L dk)\<rparr>]"
    using c by (simp add: built_tx_def dust_def)
  ultimately show "\<exists>t. fst (create_anchor_tx L W S dk w) = Inr t
             \<and> outputs t = [\<lparr>out_sats = dust, out_script_pubkey = p2pkh L (address L dk)\<rparr>]"
    by blast
qed

theorem insufficient_funds_iff_witness:
  "fst (fetch_utxos (demo_lib 225 (one_utxo 657)) demo_W demo_S
            (address (demo_lib 225 (one_utxo 657)) (wallet_key demo_S)) demo_world) = demo_utxo 657 # []
   \<and> u_sats (demo_utxo 657)
       = dust + anchor_fee (demo_lib 225 (one_utxo 657)) demo_S demo_derived (demo_utxo 657) - 1
   \<and> fst (create_anchor_tx (demo_lib 225 (one_utxo 657)) demo_W demo_S demo_derived demo_world)
       = Inl (InsufficientFunds (JStr ''aa'') 0 658 657)
   \<and> fst (fetch_utxos (demo_lib 225 (one_utxo 658)) demo_W demo_S
            (address (demo_lib 225 (one_utxo 658)) (wallet_key demo_S)) demo_world) = demo_utxo 658 # []
   \<and> u_sats (demo_utxo 658)
       = dust + anchor_fee (demo_lib 225 (one_utxo 658)) demo_S demo_derived (demo_utxo 658)
   \<and> (\<exists>t. fst (create_anchor_tx (demo_lib 225 (one_utxo 658)) demo_W demo_S demo_derived demo_world)
            = Inr t
          \<and> outputs t = [\<lparr>out_sats = 546, out_script_pubkey = ''76a914D88ac''\<rparr>])"
proof -
  have fee: "anchor_fee (demo_lib 225 d) demo_S demo_derived u = 112" for d u
    by (simp add: demo_fee)
  have p: "p2pkh (demo_lib 225 d) (address (demo_lib 225 d) demo_derived) = ''76a914D88ac''" for d
    by (simp add: demo_lib_def demo_derived_def)
  have u: "u_txid (demo_utxo v) = JStr ''aa''" "u_index (demo_utxo v) = 0" for v
    by (simp_all add: demo_utxo_def)
  show ?thesis
    using insufficient_funds_iff[of "demo_lib 225 (one_utxo 657)" demo_W demo_S demo_derived
        demo_world "demo_utxo 657" "[]"]
      insufficient_funds_iff[of "demo_lib 225 (one_utxo 658)" demo_W demo_S demo_derived
        demo_world "demo_utxo 658" "[]"]
    by (simp add: demo_fetch_fst fee p u demo_utxo_sats dust_def)
qed

text \<open>
  C4. Every transaction the builder returns spends exactly one input, the first output
  fetched for the wallet address; its first output pays exactly 546 satoshis to the derived
  key's address; it has a second output, of exactly \<open>change = value - 546 - fee\<close> satoshis
  to the wallet address, if and only if \<open>change \<ge> 546\<close>, and otherwise no other output. It
  is signed with the wallet key.
\<close>

theorem anchor_tx_shape:
  assumes "fst (create_anchor_tx L W S dk w) = Inr t"
  shows "\<exists>u us. fst (fetch_utxos L W S (address L (wallet_key S)) w) = u # us
      \<and> inputs t = [\<lparr>in_txid = u_txid u, in_index = u_index u, in_sats = u_sats u,
                      in_script_pubkey = u_script_pubkey u\<rparr>]
      \<and> length (inputs t) = 1
      \<and> outputs t = \<lparr>out_sats = 546, out_script_pubkey = p2pkh L (address L dk)\<rparr>
                    # (if 546 \<le> u_sats u - 546 - anchor_fee L S dk u
                       then [\<lparr>out_sats = u_sats u - 546 - anchor_fee L S dk u,
                               out_script_pubkey = p2pkh L (address L (wallet_key S))\<rparr>]
                       else [])
      \<and> (length (outputs t) = 2 \<longleftrightarrow> 546 \<le> u_sats u - 546 - anchor_fee L S dk u)
      \<and> (length (outputs t) = 1 \<longleftrightarrow> u_sats u - 546 - anchor_fee L S dk u < 546)
      \<and> signed_with t = [wallet_key S]"
proof -
  obtain u us where f: "fst (fetch_utxos L W S (address L (wallet_key S)) w) = u # us"
    and t: "t = built_tx L S dk u"
    using create_anchor_tx_Inr[OF assms] by blast
  have "inputs t = [\<lparr>in_txid = u_txid u, in_index = u_index u, in_sats = u_sats u,
                      in_script_pubkey = u_script_pubkey u\<rparr>]"
    by (simp add: t built_tx_def)
  moreover have "outputs t = \<lparr>out_sats = 546, out_script_pubkey = p2pkh L (address L dk)\<rparr>
                    # (if 546 \<le> u_sats u - 546 - anchor_fee L S dk u
                       then [\<lparr>out_sats = u_sats u - 546 - anchor_fee L S dk u,
                               out_script_pubkey = p2pkh L (address L (wallet_key S))\<rparr>]
                       else [])"
    by (simp add: t built_tx_def anchor_change_def dust_def)
  moreover have "signed_with t = [wallet_key S]"
    by (simp add: t built_tx_def)
  ultimately show ?thesis
    using f by auto
qed

theorem anchor_tx_shape_witness:
  "fst (create_anchor_tx (demo_lib 225 (one_utxo 2000)) demo_W demo_S demo_derived demo_world)
     = Inr (built_tx (demo_lib 225 (one_utxo 2000)) demo_S demo_derived (demo_utxo 2000))
   \<and> (\<exists>u us. fst (fetch_utxos (demo_lib 225 (one_utxo 2000)) demo_W demo_S
                    (address (demo_lib 225 (one_utxo 2000)) (wallet_key demo_S)) demo_world) = u # us
        \<and> length (inputs (built_tx (demo_lib 225 (one_utxo 2000)) demo_S demo_derived (demo_utxo 2000))) = 1
        \<and> signed_with (built_tx (demo_lib 225 (one_utxo 2000)) demo_S demo_derived (demo_utxo 2000))
          = [wallet_key demo_S])"
proof -
  have fee: "anchor_fee (demo_lib 225 d) demo_S demo_derived u = 112" for d u
    by (simp add: demo_fee)
  have c: "fst (create_anchor_tx (demo_lib 225 (one_utxo 2000)) demo_W demo_S demo_derived demo_world)
     = Inr (built_tx (demo_lib 225 (one_utxo 2000)) demo_S demo_derived (demo_utxo 2000))"
    using create_anchor_tx_fst_cons[OF demo_fetch_fst, of 2000 225 demo_derived]
    by (simp add: anchor_change_def fee dust_def demo_utxo_sats)
  show ?thesis
    using anchor_tx_shape[OF c] c by blast
qed

text \<open>
  C5 (as the code has it). For every transaction the builder returns, with
  \<open>change = inputValue - dust - fee \<ge> 0\<close>: if \<open>change \<ge> dust\<close> the change is paid as the
  second output and \<open>inputValue = dustOutput + fee + changeOutput\<close>; if \<open>change < dust\<close> the
  dust output is the only output and \<open>inputValue = dustOutput + fee + change\<close>, the change
  being left to the network on top of the fee: what the network receives beyond the fee is
  exactly that difference.
\<close>

theorem anchor_tx_conservation:
  assumes "fst (create_anchor_tx L W S dk w) = Inr t"
  shows "\<exists>u us. fst (fetch_utxos L W S (address L (wallet_key S)) w) = u # us
      \<and> total_in t = u_sats u
      \<and> 0 \<le> u_sats u - dust - anchor_fee L S dk u
      \<and> (dust \<le> u_sats u - dust - anchor_fee L S dk u \<longrightarrow>
           length (outputs t) = 2
           \<and> out_sats (outputs t ! 1) = u_sats u - dust - anchor_fee L S dk u
           \<and> total_in t = dust + anchor_fee L S dk u + out_sats (outputs t ! 1)
           \<and> total_in t = total_out t + anchor_fee L S dk u)
      \<and> (u_sats u - dust - anchor_fee L S dk u < dust \<longrightarrow>
           outputs t = [\<lparr>out_sats = dust, out_script_pubkey = p2pkh L (address L dk)\<rparr>]
           \<and> total_out t = dust
           \<and> total_in t = dust + anchor_fee L S dk u + (u_sats u - dust - anchor_fee L S dk u)
           \<and> total_in t - total_out t - anchor_fee L S dk u
             = u_sats u - dust - anchor_fee L S dk u)"
proof -
  obtain u us where f: "fst (fetch_utxos L W S (address L (wallet_key S)) w) = u # us"
    and c: "0 \<le> anchor_change L S dk u" and t: "t = built_tx L S dk u"
    using create_anchor_tx_Inr[OF assms] by blast
  have i: "total_in t = u_sats u"
    by (simp add: t total_in_built)
  have o: "outputs t = \<lparr>out_sats = 546, out_script_pubkey = p2pkh L (address L dk)\<rparr>
                    # (if 546 \<le> u_sats u - 546 - anchor_fee L S dk u
                       then [\<lparr>out_sats = u_sats u - 546 - anchor_fee L S dk u,
                               out_script_pubkey = p2pkh L (address L (wallet_key S))\<rparr>]
                       else [])"
    by (simp add: t built_tx_def anchor_change_def dust_def)
  have out: "total_out t = 546 + (if 546 \<le> u_sats u - 546 - anchor_fee L S dk u
                                  then u_sats u - 546 - anchor_fee L S dk u else 0)"
    by (simp add: t total_out_built anchor_change_def dust_def)
  have big: "length (outputs t) = 2
           \<and> out_sats (outputs t ! 1) = u_sats u - dust - anchor_fee L S dk u
           \<and> total_in t = dust + anchor_fee L S dk u + out_sats (outputs t ! 1)
           \<and> total_in t = total_out t + anchor_fee L S dk u"
    if "dust \<le> u_sats u - dust - anchor_fee L S dk u"
    using that i o out by (simp add: dust_def)
  have small: "outputs t = [\<lparr>out_sats = dust, out_script_pubkey = p2pkh L (address L dk)\<rparr>]
           \<and> total_out t = dust
           \<and> total_in t = dust + anchor_fee L S dk u + (u_sats u - dust - anchor_fee L S dk u)
           \<and> total_in t - total_out t - anchor_fee L S dk u
             = u_sats u - dust - anchor_fee L S dk u"
    if "u_sats u - dust - anchor_fee L S dk u < dust"
    using that i o out by (simp add: dust_def)
  show ?thesis
    using f i c big small by (auto simp: anchor_change_def)
qed

theorem anchor_tx_conservation_witness:
  "fst (create_anchor_tx (demo_lib 226 (one_utxo 700)) demo_W demo_S demo_derived demo_world)
     = Inr (built_tx (demo_lib 226 (one_utxo 700)) demo_S demo_derived (demo_utxo 700))
   \<and> (\<exists>u us. fst (fetch_utxos (demo_lib 226 (one_utxo 700)) demo_W demo_S
                    (address (demo_lib 226 (one_utxo 700)) (wallet_key demo_S)) demo_world) = u # us
        \<and> total_in (built_tx (demo_lib 226 (one_utxo 700)) demo_S demo_derived (demo_utxo 700))
          = u_sats u
        \<and> 0 \<le> u_sats u - dust - anchor_fee (demo_lib 226 (one_utxo 700)) demo_S demo_derived u)"
proof -
  have fee: "anchor_fee (demo_lib 226 d) demo_S demo_derived u = 113" for d u
    by (simp add: demo_fee)
  have c: "fst (create_anchor_tx (demo_lib 226 (one_utxo 700)) demo_W demo_S demo_derived demo_world)
     = Inr (built_tx (demo_lib 226 (one_utxo 700)) demo_S demo_derived (demo_utxo 700))"
    using create_anchor_tx_fst_cons[OF demo_fetch_fst, of 700 226 demo_derived]
    by (simp add: anchor_change_def fee dust_def demo_utxo_sats)
  show ?thesis
    using anchor_tx_conservation[OF c] c by blast
qed

text \<open>
  C5 as stated fails: with an estimated size of 226 bytes (fee 113) and a funding output of
  700 satoshis the builder returns a transaction with the dust output alone, and
  \<open>700 \<noteq> 546 + 113 + 0\<close>.
\<close>

theorem conservation_counterexample:
  "fst (create_anchor_tx (demo_lib 226 (one_utxo 700)) demo_W demo_S demo_derived demo_world)
     = Inr (built_tx (demo_lib 226 (one_utxo 700)) demo_S demo_derived (demo_utxo 700))
   \<and> outputs (built_tx (demo_lib 226 (one_utxo 700)) demo_S demo_derived (demo_utxo 700))
     = [\<lparr>out_sats = 546, out_script_pubkey = ''76a914D88ac''\<rparr>]
   \<and> anchor_fee (demo_lib 226 (one_utxo 700)) demo_S demo_derived (demo_utxo 700) = 113
   \<and> total_in (built_tx (demo_lib 226 (one_utxo 700)) demo_S demo_derived (demo_utxo 700)) = 700
   \<and> total_in (built_tx (demo_lib 226 (one_utxo 700)) demo_S demo_derived (demo_utxo 700))
     \<noteq> 546 + anchor_fee (demo_lib 226 (one_utxo 700)) demo_S demo_derived (demo_utxo 700) + 0"
proof -
  have fee: "anchor_fee (demo_lib 226 d) demo_S demo_derived u = 113" for d u
    by (simp add: demo_fee)
  have ch: "anchor_change (demo_lib 226 (one_utxo 700)) demo_S demo_derived (demo_utxo 700) = 41"
    by (simp add: anchor_change_def fee dust_def demo_utxo_sats)
  have c: "fst (create_anchor_tx (demo_lib 226 (one_utxo 700)) demo_W demo_S demo_derived demo_world)
     = Inr (built_tx (demo_lib 226 (one_utxo 700)) demo_S demo_derived (demo_utxo 700))"
    using create_anchor_tx_fst_cons[OF demo_fetch_fst, of 700 226 demo_derived]
    by (simp add: ch)
  have out: "outputs (built_tx (demo_lib 226 (one_utxo 700)) demo_S demo_derived (demo_utxo 700))
     = [\<lparr>out_sats = 546, out_script_pubkey = ''76a914D88ac''\<rparr>]"
    by (simp add: built_tx_def ch) (simp add: demo_lib_def demo_derived_def)
  show ?thesis
    using c out by (simp add: fee total_in_built demo_utxo_sats)
qed

section \<open>Properties of the UTXO source\<close>

lemma usable_readable: "usable L e \<Longrightarrow> readable L e"
  by (auto simp: usable_def readable_def split: json.splits option.splits)

lemma collect_utxos_readable:
  "\<forall>e\<in>set items. readable L e
   \<Longrightarrow> collect_utxos L addr items acc = Inr (acc @ map (utxo_of L addr) (filter (usable L) items))"
proof (induction items arbitrary: acc)
  case Nil
  show ?case by simp
next
  case (Cons e items)
  from Cons.prems obtain kvs sats where e: "e = JObj kvs"
    and v: "py_int L (dict_get kvs ''value'' (JInt 0)) = Some sats"
    by (auto simp: readable_def split: json.splits)
  have rest: "\<forall>e\<in>set items. readable L e" using Cons.prems by simp
  show ?case
    by (simp add: e v Cons.IH[OF rest] usable_def utxo_of_def Let_def)
qed

lemma collect_utxos_Inr:
  "collect_utxos L addr items acc = Inr r
   \<Longrightarrow> r = acc @ map (utxo_of L addr) (filter (usable L) items)"
proof (induction items arbitrary: acc)
  case Nil
  then show ?case by simp
next
  case (Cons e items)
  from Cons.prems obtain kvs sats where e: "e = JObj kvs"
    and v: "py_int L (dict_get kvs ''value'' (JInt 0)) = Some sats"
    by (auto split: json.splits option.splits)
  show ?case
  proof (cases "usable L e")
    case True
    with Cons.prems e v
    have "collect_utxos L addr items (acc @ [utxo_of L addr e]) = Inr r"
      by (simp add: usable_def utxo_of_def Let_def)
    from Cons.IH[OF this] True show ?thesis by simp
  next
    case False
    with Cons.prems e v
    have "collect_utxos L addr items acc = Inr r"
      by (simp add: usable_def Let_def split: if_splits)
    from Cons.IH[OF this] False show ?thesis by simp
  qed
qed

lemma usable_utxo_of:
  assumes "usable L e"
  shows "\<exists>kvs. e = JObj kvs
       \<and> py_int L (dict_get kvs ''value'' (JInt 0)) = Some (u_sats (utxo_of L addr e))
       \<and> 0 < u_sats (utxo_of L addr e)
       \<and> u_txid (utxo_of L addr e) = dict_get kvs ''tx_hash'' JNull
       \<and> truthy (u_txid (utxo_of L addr e))
       \<and> instance_int (dict_get kvs ''tx_pos'' JNull) = Some (u_index (utxo_of L addr e))
       \<and> u_script_pubkey (utxo_of L addr e) = p2pkh L addr"
  using assms by (auto simp: usable_def utxo_of_def split: json.splits option.splits)

lemma fetch_utxos_cases:
  "fst (fetch_utxos L W S addr w) = [] \<or>
   (\<exists>code body data items. http_get W (unspent_url S addr) = Reply code body
      \<and> \<not> (400 \<le> code \<and> code < 600)
      \<and> json_loads L body = Some data \<and> py_iter data = Inr items
      \<and> fst (fetch_utxos L W S addr w) = map (utxo_of L addr) (filter (usable L) items))"
  by (auto simp: fetch_utxos_def Let_def raise_for_status_def
      split: http_reply.splits sum.splits option.splits if_splits dest!: collect_utxos_Inr)

text \<open>
  C6 (as the code has it). For every address, every entry the UTXO source returns has a
  strictly positive value and comes from an entry of the indexer's answer whose value
  \<open>int(...)\<close> reads as that value, whose transaction id is present and truthy and whose
  output index is present and an instance of \<open>int\<close>; the id's form and the index's sign
  are not checked. When no entry makes the loop raise, the result is exactly the entries
  that pass this check, in order, all others being left out. When the request raises or
  the status is 4xx or 5xx, the result is the empty list and nothing is raised.
\<close>

theorem fetch_utxos_filtered:
  "(\<forall>u\<in>set (fst (fetch_utxos L W S addr w)).
      0 < u_sats u \<and> truthy (u_txid u) \<and> u_txid u \<noteq> JNull \<and> u_script_pubkey u = p2pkh L addr
      \<and> (\<exists>code body data items kvs.
            http_get W (unspent_url S addr) = Reply code body
          \<and> json_loads L body = Some data \<and> py_iter data = Inr items
          \<and> JObj kvs \<in> set items
          \<and> py_int L (dict_get kvs ''value'' (JInt 0)) = Some (u_sats u)
          \<and> dict_get kvs ''tx_hash'' JNull = u_txid u
          \<and> instance_int (dict_get kvs ''tx_pos'' JNull) = Some (u_index u)))
   \<and> (http_get W (unspent_url S addr) = Reply code body \<longrightarrow> \<not> (400 \<le> code \<and> code < 600) \<longrightarrow>
        json_loads L body = Some (JArr items) \<longrightarrow> (\<forall>e\<in>set items. readable L e) \<longrightarrow>
        fst (fetch_utxos L W S addr w) = map (utxo_of L addr) (filter (usable L) items))
   \<and> (query_failed W (unspent_url S addr) \<longrightarrow> fst (fetch_utxos L W S addr w) = [])"
proof (intro conjI ballI impI)
  fix u assume u: "u \<in> set (fst (fetch_utxos L W S addr w))"
  then have "fst (fetch_utxos L W S addr w) \<noteq> []" by auto
  then obtain code body data items where r: "http_get W (unspent_url S addr) = Reply code body"
    and j: "json_loads L body = Some data" and it: "py_iter data = Inr items"
    and f: "fst (fetch_utxos L W S addr w) = map (utxo_of L addr) (filter (usable L) items)"
    using fetch_utxos_cases[of L W S addr w] by blast
  from u f obtain e where e: "e \<in> set items" "usable L e" "u = utxo_of L addr e"
    by auto
  from usable_utxo_of[OF e(2), of addr] e(3) obtain kvs where k: "e = JObj kvs"
    "py_int L (dict_get kvs ''value'' (JInt 0)) = Some (u_sats u)" "0 < u_sats u"
    "u_txid u = dict_get kvs ''tx_hash'' JNull" "truthy (u_txid u)"
    "instance_int (dict_get kvs ''tx_pos'' JNull) = Some (u_index u)"
    "u_script_pubkey u = p2pkh L addr"
    by auto
  show "0 < u_sats u" by (rule k(3))
  show "truthy (u_txid u)" by (rule k(5))
  show "u_txid u \<noteq> JNull" using k(5) by auto
  show "u_script_pubkey u = p2pkh L addr" by (rule k(7))
  show "\<exists>code body data items kvs.
            http_get W (unspent_url S addr) = Reply code body
          \<and> json_loads L body = Some data \<and> py_iter data = Inr items
          \<and> JObj kvs \<in> set items
          \<and> py_int L (dict_get kvs ''value'' (JInt 0)) = Some (u_sats u)
          \<and> dict_get kvs ''tx_hash'' JNull = u_txid u
          \<and> instance_int (dict_get kvs ''tx_pos'' JNull) = Some (u_index u)"
    using r j it e(1) k(1,2,4,6) by auto
next
  assume "http_get W (unspent_url S addr) = Reply code body" "\<not> (400 \<le> code \<and> code < 600)"
    "json_loads L body = Some (JArr items)" "\<forall>e\<in>set items. readable L e"
  then show "fst (fetch_utxos L W S addr w) = map (utxo_of L addr) (filter (usable L) items)"
    by (auto simp: fetch_utxos_def Let_def raise_for_status_def collect_utxos_readable)
next
  assume "query_failed W (unspent_url S addr)"
  then show "fst (fetch_utxos L W S addr w) = []"
    by (auto simp: query_failed_def fetch_utxos_def Let_def raise_for_status_def
        split: http_reply.splits)
qed

theorem fetch_utxos_filtered_witness:
  "fst (fetch_utxos (demo_lib 225 mixed_utxos) demo_W demo_S ''A'' demo_world) = [demo_utxo 2000]
   \<and> 0 < u_sats (demo_utxo 2000) \<and> truthy (u_txid (demo_utxo 2000))
   \<and> http_get demo_W (unspent_url demo_S ''A'') = Reply 200 []
   \<and> json_loads (demo_lib 225 mixed_utxos) [] = Some (JArr mixed_items)
   \<and> list_all (readable (demo_lib 225 mixed_utxos)) mixed_items
   \<and> query_failed (demo_net (ConnFail ''down'') (Reply 200 [])) (unspent_url demo_S ''A'')
   \<and> fst (fetch_utxos (demo_lib 225 mixed_utxos) (demo_net (ConnFail ''down'') (Reply 200 []))
            demo_S ''A'' demo_world) = []"
proof -
  have r: "http_get demo_W (unspent_url demo_S ''A'') = Reply 200 []"
    by (simp add: demo_W_def demo_net_def)
  have j: "json_loads (demo_lib 225 mixed_utxos) [] = Some (JArr mixed_items)"
    by (simp add: demo_lib_def mixed_utxos_def)
  have a: "\<forall>e\<in>set mixed_items. readable (demo_lib 225 mixed_utxos) e"
    by (simp add: mixed_items_def readable_def dict_get_def)
  have q: "query_failed (demo_net (ConnFail ''down'') (Reply 200 [])) (unspent_url demo_S ''A'')"
    by (simp add: query_failed_def demo_net_def)
  have e: "fst (fetch_utxos (demo_lib 225 mixed_utxos) demo_W demo_S ''A'' demo_world) = [demo_utxo 2000]"
    by (simp add: demo_defs fetch_defs mixed_utxos_def mixed_items_def)
  note ok = fetch_utxos_filtered[of "demo_lib 225 mixed_utxos" demo_W demo_S "''A''" demo_world
        200 "[]" mixed_items]
  note down = fetch_utxos_filtered[of "demo_lib 225 mixed_utxos"
        "demo_net (ConnFail ''down'') (Reply 200 [])" demo_S "''A''" demo_world 200 "[]" mixed_items]
  from ok have p: "\<forall>u\<in>set (fst (fetch_utxos (demo_lib 225 mixed_utxos) demo_W demo_S ''A'' demo_world)).
        0 < u_sats u \<and> truthy (u_txid u)"
    by blast
  from down q have n: "fst (fetch_utxos (demo_lib 225 mixed_utxos)
        (demo_net (ConnFail ''down'') (Reply 200 [])) demo_S ''A'' demo_world) = []"
    by blast
  from p e have v: "0 < u_sats (demo_utxo 2000) \<and> truthy (u_txid (demo_utxo 2000))"
    by simp
  from a have l: "list_all (readable (demo_lib 225 mixed_utxos)) mixed_items"
    by (simp add: list_all_iff)
  show ?thesis
    using v l n r j q e by blast
qed

text \<open>
  C6 as stated fails: the UTXO source returns an entry whose transaction id is the number 7
  and whose output index is -1, and one whose transaction id is the string \<open>not hex!\<close> and
  whose output index is \<open>True\<close>; none of these is well-formed.
\<close>

theorem fetch_utxos_malformed_counterexample:
  "fst (fetch_utxos (demo_lib 225 malformed_utxos) demo_W demo_S ''A'' demo_world)
     = [\<lparr>u_txid = JInt 7, u_index = - 1, u_sats = 1, u_script_pubkey = ''76a914A88ac''\<rparr>,
        \<lparr>u_txid = JStr ''not hex!'', u_index = 1, u_sats = 1, u_script_pubkey = ''76a914A88ac''\<rparr>]
   \<and> \<not> spec_well_formed_txid (JInt 7)
   \<and> \<not> spec_well_formed_index (JInt (- 1))
   \<and> \<not> spec_well_formed_txid (JStr ''not hex!'')
   \<and> \<not> spec_well_formed_index (JBool True)"
  by (simp add: demo_defs fetch_defs malformed_utxos_def spec_well_formed_txid_def
      spec_well_formed_index_def)

section \<open>Properties of the broadcaster\<close>

lemma broadcast_tx_result:
  "fst (broadcast_tx L W S t w) =
     (case http_post W (submit_url S) (tx_hex L t) of
        ConnFail m \<Rightarrow> Inl (BroadcastError (RequestException m))
      | Reply code body \<Rightarrow>
          (if 400 \<le> code \<and> code < 600 then Inl (BroadcastError (RequestException ''HTTPError''))
           else Inr (txid L t)))"
  by (simp add: broadcast_tx_def Let_def raise_for_status_def split: http_reply.splits)

lemma broadcast_tx_world:
  "db (snd (broadcast_tx L W S t w)) = db w
   \<and> (\<exists>evs. trace (snd (broadcast_tx L W S t w)) = trace w @ Submitted (submit_url S) (tx_hex L t) # evs
            \<and> (\<forall>ev\<in>set evs. \<not> is_store_write ev))"
  by (simp add: broadcast_tx_def Let_def raise_for_status_def split: http_reply.splits)

text \<open>
  C9. For every signed transaction, the broadcaster raises exactly when the submission
  could not be made (the request raised) or was rejected (status 4xx or 5xx), and what it
  raises is always the broadcast failure; otherwise it returns the locally computed
  identifier. When the endpoint accepts and its answer, stripped, differs from the local
  identifier, the local identifier is returned and the only trace of the difference is a
  warning.
\<close>

theorem broadcast_tx_fails_iff:
  "((\<exists>e. fst (broadcast_tx L W S t w) = Inl e) \<longleftrightarrow> submission_failed L W S t)
   \<and> (\<forall>e. fst (broadcast_tx L W S t w) = Inl e \<longrightarrow> (\<exists>cause. e = BroadcastError cause))
   \<and> (\<not> submission_failed L W S t \<longrightarrow> fst (broadcast_tx L W S t w) = Inr (txid L t))
   \<and> (http_post W (submit_url S) (tx_hex L t) = Reply code body \<longrightarrow>
        \<not> (400 \<le> code \<and> code < 600) \<longrightarrow>
        strip_chars [CHR 0x22] (strip body) \<noteq> txid L t \<longrightarrow>
        broadcast_tx L W S t w
        = (Inr (txid L t),
           w\<lparr>trace := trace w @ [Submitted (submit_url S) (tx_hex L t),
                                   Warning (strip_chars [CHR 0x22] (strip body))]\<rparr>))"
  by (auto simp: broadcast_tx_result submission_failed_def broadcast_tx_def Let_def raise_for_status_def
      split: http_reply.splits)

theorem broadcast_tx_fails_iff_witness:
  "http_post (demo_net (Reply 200 []) (Reply 200 ''ok'')) (submit_url demo_S)
       (tx_hex (demo_lib 225 JNull) demo_tx) = Reply 200 ''ok''
   \<and> strip_chars [CHR 0x22] (strip ''ok'') \<noteq> txid (demo_lib 225 JNull) demo_tx
   \<and> \<not> submission_failed (demo_lib 225 JNull) (demo_net (Reply 200 []) (Reply 200 ''ok'')) demo_S demo_tx
   \<and> broadcast_tx (demo_lib 225 JNull) (demo_net (Reply 200 []) (Reply 200 ''ok'')) demo_S demo_tx
        demo_world
      = (Inr ''beef'',
         demo_world\<lparr>trace := [Submitted ''https://api.whatsonchain.com/v1/bsv/test/tx/raw'' ''0100'',
                                 Warning ''ok'']\<rparr>)
   \<and> submission_failed (demo_lib 225 JNull) (demo_net (Reply 200 []) (Reply 400 ''missing inputs''))
         demo_S demo_tx
   \<and> (\<exists>e. fst (broadcast_tx (demo_lib 225 JNull) (demo_net (Reply 200 []) (Reply 400 ''missing inputs''))
                 demo_S demo_tx demo_world) = Inl (BroadcastError e))"
proof -
  have p: "http_post (demo_net (Reply 200 []) (Reply 200 ''ok'')) (submit_url demo_S)
       (tx_hex (demo_lib 225 JNull) demo_tx) = Reply 200 ''ok''"
    by (simp add: demo_net_def)
  have s: "strip_chars [CHR 0x22] (strip ''ok'') = ''ok''"
    by (simp add: strip_chars_def strip_def strip_by_def is_space_def)
  have i: "txid (demo_lib 225 JNull) demo_tx = ''beef''" "tx_hex (demo_lib 225 JNull) demo_tx = ''0100''"
    by (simp_all add: demo_lib_def)
  have u: "submit_url demo_S = ''https://api.whatsonchain.com/v1/bsv/test/tx/raw''"
    by (simp add: submit_url_def WOC_API_BASE_URL_def demo_S_def demo_service_def)
  have t: "trace demo_world = []"
    by (simp add: demo_world_def)
  have ok: "\<not> submission_failed (demo_lib 225 JNull) (demo_net (Reply 200 []) (Reply 200 ''ok'')) demo_S demo_tx"
    by (simp add: submission_failed_def demo_net_def)
  have f: "submission_failed (demo_lib 225 JNull) (demo_net (Reply 200 []) (Reply 400 ''missing inputs''))
         demo_S demo_tx"
    by (simp add: submission_failed_def demo_net_def)
  note accepted = broadcast_tx_fails_iff[of "demo_lib 225 JNull" "demo_net (Reply 200 []) (Reply 200 ''ok'')"
      demo_S demo_tx demo_world 200 "''ok''"]
  note rejected = broadcast_tx_fails_iff[of "demo_lib 225 JNull"
      "demo_net (Reply 200 []) (Reply 400 ''missing inputs'')" demo_S demo_tx demo_world 400 "''missing inputs''"]
  from accepted p s i have a: "broadcast_tx (demo_lib 225 JNull) (demo_net (Reply 200 []) (Reply 200 ''ok''))
        demo_S demo_tx demo_world
      = (Inr ''beef'',
         demo_world\<lparr>trace := [Submitted ''https://api.whatsonchain.com/v1/bsv/test/tx/raw'' ''0100'',
                                 Warning ''ok'']\<rparr>)"
    by (simp add: u t)
  from rejected f have r: "\<exists>e. fst (broadcast_tx (demo_lib 225 JNull)
        (demo_net (Reply 200 []) (Reply 400 ''missing inputs'')) demo_S demo_tx demo_world)
        = Inl (BroadcastError e)"
    by blast
  show ?thesis
    using p s i ok a f r by simp
qed

section \<open>Properties of the orchestrator\<close>

lemma fetch_utxos_world:
  "snd (fetch_utxos L W S addr w) = w\<lparr>trace := trace w @ [Fetched (unspent_url S addr)]\<rparr>"
  by (simp add: fetch_utxos_def Let_def split: http_reply.splits sum.splits option.splits)

lemma create_anchor_tx_world:
  "snd (create_anchor_tx L W S dk w)
   = w\<lparr>trace := trace w @ [Fetched (unspent_url S (address L (wallet_key S)))]\<rparr>"
proof -
  obtain us w' where f: "fetch_utxos L W S (address L (wallet_key S)) w = (us, w')"
    by (cases "fetch_utxos L W S (address L (wallet_key S)) w")
  then have "w' = w\<lparr>trace := trace w @ [Fetched (unspent_url S (address L (wallet_key S)))]\<rparr>"
    using fetch_utxos_world[of L W S "address L (wallet_key S)" w] by simp
  with f show ?thesis
    by (cases us) (simp_all add: create_anchor_tx_empty create_anchor_tx_cons)
qed

lemma anchor_world:
  "db (snd (anchor L W S key_id w)) = db w
   \<and> (\<exists>evs. trace (snd (anchor L W S key_id w)) = trace w @ evs
            \<and> (\<forall>ev\<in>set evs. \<not> is_store_write ev)
            \<and> ((\<exists>txid'. fst (anchor L W S key_id w) = Inr txid')
                 \<longrightarrow> (\<exists>u h. Submitted u h \<in> set evs)))"
proof -
  let ?dk = "derive_brc42_key L S key_id VCSL_PROTOCOL_ID"
  obtain r w1 where c: "create_anchor_tx L W S ?dk w = (r, w1)"
    by (cases "create_anchor_tx L W S ?dk w")
  have w1: "w1 = w\<lparr>trace := trace w @ [Fetched (unspent_url S (address L (wallet_key S)))]\<rparr>"
    using create_anchor_tx_world[of L W S ?dk w] c by simp
  show ?thesis
  proof (cases r)
    case (Inl e)
    then show ?thesis using c w1 by (simp add: anchor_def)
  next
    case (Inr t)
    then have a: "anchor L W S key_id w = broadcast_tx L W S t w1"
      using c by (simp add: anchor_def)
    from broadcast_tx_world[of L W S t w1] obtain evs where
      d: "db (snd (broadcast_tx L W S t w1)) = db w1"
      and e: "trace (snd (broadcast_tx L W S t w1)) = trace w1 @ Submitted (submit_url S) (tx_hex L t) # evs"
      and n: "\<forall>ev\<in>set evs. \<not> is_store_write ev"
      by blast
    have "trace (snd (anchor L W S key_id w)) = trace w
           @ (Fetched (unspent_url S (address L (wallet_key S))) # Submitted (submit_url S) (tx_hex L t) # evs)"
      using a e w1 by simp
    moreover have "\<forall>ev\<in>set (Fetched (unspent_url S (address L (wallet_key S)))
                       # Submitted (submit_url S) (tx_hex L t) # evs). \<not> is_store_write ev"
      using n by simp
    moreover have "\<exists>u h. Submitted u h \<in> set (Fetched (unspent_url S (address L (wallet_key S)))
                       # Submitted (submit_url S) (tx_hex L t) # evs)"
      by auto
    moreover have "db (snd (anchor L W S key_id w)) = db w"
      using a d w1 by simp
    ultimately show ?thesis by blast
  qed
qed

lemma add_vcsl_anchor:
  "add_vcsl L W S vid ipns w =
     (case anchor L W S (''vcsl/'' @ vid) w of
        (Inl e, w2) \<Rightarrow> (Inl (AnchorFailed vid e), w2)
      | (Inr txid', w2) \<Rightarrow>
          (case store_vcsl (db_service S) vid ipns txid' (db w2) of
             Inr d1 \<Rightarrow> (Inr txid', w2\<lparr>db := d1, trace := trace w2 @ [DbStoreVcsl vid ipns txid']\<rparr>)
           | Inl db_err \<Rightarrow> (Inl (ReconciliationRequired vid txid' db_err),
                              w2\<lparr>trace := trace w2 @ [DbStoreVcsl vid ipns txid']\<rparr>)))"
  by (simp add: add_vcsl_def anchor_def db_call_def Let_def split: prod.splits sum.splits)

lemma anchor_fails:
  "(fst (create_anchor_tx L W S (derive_brc42_key L S key_id VCSL_PROTOCOL_ID) w) = Inl e
      \<longrightarrow> fst (anchor L W S key_id w) = Inl e)
   \<and> (create_anchor_tx L W S (derive_brc42_key L S key_id VCSL_PROTOCOL_ID) w = (Inr t, w1)
      \<longrightarrow> anchor L W S key_id w = broadcast_tx L W S t w1)"
  by (auto simp: anchor_def split: prod.splits sum.splits)

text \<open>
  C7. In \<open>add_vcsl\<close> anchoring comes before persistence. If the anchoring steps fail (the
  builder raises, or the builder returns and the broadcaster raises; the derivation itself
  cannot raise), the call fails with the anchoring error, the store is unchanged and no
  writing method of the store has been called. If they succeed with a transaction id, the
  one call of the store, \<open>store_vcsl\<close> with that id, comes last, after the submission; if it
  raises, the call fails with the reconciliation error that carries the id and the store's
  exception, and the store is unchanged; if it returns, the call returns the id.
\<close>

theorem add_vcsl_anchor_before_store:
  "(\<forall>e. fst (anchor L W S (''vcsl/'' @ vid) w) = Inl e \<longrightarrow>
       fst (add_vcsl L W S vid ipns w) = Inl (AnchorFailed vid e)
     \<and> db (snd (add_vcsl L W S vid ipns w)) = db w
     \<and> (\<exists>evs. trace (snd (add_vcsl L W S vid ipns w)) = trace w @ evs
              \<and> (\<forall>ev\<in>set evs. \<not> is_store_write ev)))
   \<and> (\<forall>txid'. fst (anchor L W S (''vcsl/'' @ vid) w) = Inr txid' \<longrightarrow>
       (\<exists>pre. trace (snd (add_vcsl L W S vid ipns w)) = trace w @ pre @ [DbStoreVcsl vid ipns txid']
              \<and> (\<forall>ev\<in>set pre. \<not> is_store_write ev)
              \<and> (\<exists>u h. Submitted u h \<in> set pre))
     \<and> (\<forall>db_err. store_vcsl (db_service S) vid ipns txid' (db w) = Inl db_err \<longrightarrow>
            fst (add_vcsl L W S vid ipns w) = Inl (ReconciliationRequired vid txid' db_err)
          \<and> db (snd (add_vcsl L W S vid ipns w)) = db w)
     \<and> (\<forall>d1. store_vcsl (db_service S) vid ipns txid' (db w) = Inr d1 \<longrightarrow>
            fst (add_vcsl L W S vid ipns w) = Inr txid'
          \<and> db (snd (add_vcsl L W S vid ipns w)) = d1))
   \<and> (\<forall>e. fst (create_anchor_tx L W S (derive_brc42_key L S (''vcsl/'' @ vid) VCSL_PROTOCOL_ID) w) = Inl e
        \<longrightarrow> fst (anchor L W S (''vcsl/'' @ vid) w) = Inl e)
   \<and> (\<forall>t w1 e. create_anchor_tx L W S (derive_brc42_key L S (''vcsl/'' @ vid) VCSL_PROTOCOL_ID) w
                  = (Inr t, w1)
        \<longrightarrow> fst (broadcast_tx L W S t w1) = Inl e
        \<longrightarrow> fst (anchor L W S (''vcsl/'' @ vid) w) = Inl e)"
proof -
  obtain r w2 where a: "anchor L W S (''vcsl/'' @ vid) w = (r, w2)"
    by (cases "anchor L W S (''vcsl/'' @ vid) w")
  have "db w2 = db w
     \<and> (\<exists>evs. trace w2 = trace w @ evs \<and> (\<forall>ev\<in>set evs. \<not> is_store_write ev)
              \<and> ((\<exists>txid'. r = Inr txid') \<longrightarrow> (\<exists>u h. Submitted u h \<in> set evs)))"
    using anchor_world[of L W S "''vcsl/'' @ vid" w] by (simp only: a fst_conv snd_conv)
  then have d: "db w2 = db w"
    and ex: "\<exists>evs. trace w2 = trace w @ evs \<and> (\<forall>ev\<in>set evs. \<not> is_store_write ev)
              \<and> ((\<exists>txid'. r = Inr txid') \<longrightarrow> (\<exists>u h. Submitted u h \<in> set evs))"
    by (rule conjunct1, rule conjunct2)
  from ex obtain evs where e: "trace w2 = trace w @ evs \<and> (\<forall>ev\<in>set evs. \<not> is_store_write ev)
              \<and> ((\<exists>txid'. r = Inr txid') \<longrightarrow> (\<exists>u h. Submitted u h \<in> set evs))" ..
  from e have tr: "trace w2 = trace w @ evs"
    by (rule conjunct1)
  from e have n: "\<forall>ev\<in>set evs. \<not> is_store_write ev"
    by (rule conjunct1[OF conjunct2])
  from e have sub: "(\<exists>txid'. r = Inr txid') \<longrightarrow> (\<exists>u h. Submitted u h \<in> set evs)"
    by (rule conjunct2[OF conjunct2])
  have fail: "fst (add_vcsl L W S vid ipns w) = Inl (AnchorFailed vid e)
     \<and> db (snd (add_vcsl L W S vid ipns w)) = db w
     \<and> (\<exists>evs. trace (snd (add_vcsl L W S vid ipns w)) = trace w @ evs
              \<and> (\<forall>ev\<in>set evs. \<not> is_store_write ev))" if "fst (anchor L W S (''vcsl/'' @ vid) w) = Inl e" for e
    using that a d tr n by (simp add: add_vcsl_anchor)
  have ok1: "\<exists>pre. trace (snd (add_vcsl L W S vid ipns w)) = trace w @ pre @ [DbStoreVcsl vid ipns txid']
              \<and> (\<forall>ev\<in>set pre. \<not> is_store_write ev)
              \<and> (\<exists>u h. Submitted u h \<in> set pre)" if r: "fst (anchor L W S (''vcsl/'' @ vid) w) = Inr txid'" for txid'
  proof -
    have that: "r = Inr txid'" using r a by simp
    have "trace (snd (add_vcsl L W S vid ipns w)) = trace w @ evs @ [DbStoreVcsl vid ipns txid']"
      using that a tr by (simp add: add_vcsl_anchor split: sum.splits)
    then show ?thesis using n sub that by blast
  qed
  have ok2: "fst (add_vcsl L W S vid ipns w) = Inl (ReconciliationRequired vid txid' db_err)
          \<and> db (snd (add_vcsl L W S vid ipns w)) = db w"
    if "fst (anchor L W S (''vcsl/'' @ vid) w) = Inr txid'"
      "store_vcsl (db_service S) vid ipns txid' (db w) = Inl db_err" for txid' db_err
    using that a d by (simp add: add_vcsl_anchor)
  have ok3: "fst (add_vcsl L W S vid ipns w) = Inr txid'
          \<and> db (snd (add_vcsl L W S vid ipns w)) = d1"
    if "fst (anchor L W S (''vcsl/'' @ vid) w) = Inr txid'"
      "store_vcsl (db_service S) vid ipns txid' (db w) = Inr d1" for txid' d1
    using that a d by (simp add: add_vcsl_anchor)
  have b: "fst (anchor L W S (''vcsl/'' @ vid) w) = Inl e"
    if "create_anchor_tx L W S (derive_brc42_key L S (''vcsl/'' @ vid) VCSL_PROTOCOL_ID) w = (Inr t, w1)"
      "fst (broadcast_tx L W S t w1) = Inl e" for t w1 e
    using that anchor_fails[of L W S "''vcsl/'' @ vid" w e t w1] by simp
  have c: "fst (anchor L W S (''vcsl/'' @ vid) w) = Inl e"
    if "fst (create_anchor_tx L W S (derive_brc42_key L S (''vcsl/'' @ vid) VCSL_PROTOCOL_ID) w) = Inl e" for e
    using that anchor_fails[of L W S "''vcsl/'' @ vid" w e] by simp
  show ?thesis
    using fail ok1 ok2 ok3 b c by blast
qed

lemmas service_defs = anchor_def create_anchor_tx_def fetch_utxos_def unspent_url_def
  raise_for_status_def dict_get_def Let_def WOC_API_BASE_URL_def broadcast_tx_def submit_url_def
  strip_chars_def strip_def strip_by_def is_space_def add_input_def add_output_def TxOutput_def
  sign_def int_of_float_def fee_rate_def

lemma demo_anchor_rejected:
  "fst (anchor (demo_lib 225 (one_utxo 2000)) (demo_net (Reply 200 []) (Reply 400 ''no'')) demo_S
         (''vcsl/'' @ ''x'') demo_world)
   = Inl (BroadcastError (RequestException ''HTTPError''))"
  by (simp add: service_defs demo_defs)

lemma demo_anchor_accepted:
  "fst (anchor (demo_lib 225 (one_utxo 2000)) demo_W (demo_service api) key_id
          \<lparr>db = d, trace = []\<rparr>) = Inr ''beef''"
  by (simp add: service_defs demo_defs)

theorem add_vcsl_anchor_before_store_witness:
  "fst (anchor (demo_lib 225 (one_utxo 2000)) (demo_net (Reply 200 []) (Reply 400 ''no'')) demo_S
         (''vcsl/'' @ ''x'') demo_world)
     = Inl (BroadcastError (RequestException ''HTTPError''))
   \<and> fst (add_vcsl (demo_lib 225 (one_utxo 2000)) (demo_net (Reply 200 []) (Reply 400 ''no'')) demo_S
           ''x'' ''p'' demo_world)
     = Inl (AnchorFailed ''x'' (BroadcastError (RequestException ''HTTPError'')))
   \<and> db (snd (add_vcsl (demo_lib 225 (one_utxo 2000)) (demo_net (Reply 200 []) (Reply 400 ''no''))
                demo_S ''x'' ''p'' demo_world)) = db demo_world
   \<and> fst (anchor (demo_lib 225 (one_utxo 2000)) demo_W demo_S (''vcsl/'' @ ''x'') down_world)
     = Inr ''beef''
   \<and> store_vcsl (db_service demo_S) ''x'' ''p'' ''beef'' (db down_world)
     = Inl (StoreError ''connection failed'')
   \<and> fst (add_vcsl (demo_lib 225 (one_utxo 2000)) demo_W demo_S ''x'' ''p'' down_world)
     = Inl (ReconciliationRequired ''x'' ''beef'' (StoreError ''connection failed''))"
proof -
  note rejected = add_vcsl_anchor_before_store[where L = "demo_lib 225 (one_utxo 2000)"
      and W = "demo_net (Reply 200 []) (Reply 400 ''no'')" and S = demo_S and vid = "''x''"
      and ipns = "''p''" and w = demo_world]
  note stranded = add_vcsl_anchor_before_store[where L = "demo_lib 225 (one_utxo 2000)"
      and W = demo_W and S = demo_S and vid = "''x''" and ipns = "''p''" and w = down_world]
  have a1: "fst (anchor (demo_lib 225 (one_utxo 2000)) (demo_net (Reply 200 []) (Reply 400 ''no'')) demo_S
         (''vcsl/'' @ ''x'') demo_world)
     = Inl (BroadcastError (RequestException ''HTTPError''))"
    by (rule demo_anchor_rejected)
  have a2: "fst (anchor (demo_lib 225 (one_utxo 2000)) demo_W demo_S (''vcsl/'' @ ''x'') down_world)
     = Inr ''beef''"
    unfolding down_world_def demo_S_def by (rule demo_anchor_accepted)
  have st: "store_vcsl (db_service demo_S) ''x'' ''p'' ''beef'' (db down_world)
     = Inl (StoreError ''connection failed'')"
    by (simp add: demo_S_def demo_service_def PostgresDataStore_def pg_store_vcsl_def down_world_def
        demo_store_def)
  from rejected have "\<forall>e. fst (anchor (demo_lib 225 (one_utxo 2000))
         (demo_net (Reply 200 []) (Reply 400 ''no'')) demo_S (''vcsl/'' @ ''x'') demo_world) = Inl e \<longrightarrow>
       fst (add_vcsl (demo_lib 225 (one_utxo 2000)) (demo_net (Reply 200 []) (Reply 400 ''no'')) demo_S
           ''x'' ''p'' demo_world) = Inl (AnchorFailed ''x'' e)
     \<and> db (snd (add_vcsl (demo_lib 225 (one_utxo 2000)) (demo_net (Reply 200 []) (Reply 400 ''no''))
                demo_S ''x'' ''p'' demo_world)) = db demo_world
     \<and> (\<exists>evs. trace (snd (add_vcsl (demo_lib 225 (one_utxo 2000))
                 (demo_net (Reply 200 []) (Reply 400 ''no'')) demo_S ''x'' ''p'' demo_world))
               = trace demo_world @ evs
              \<and> (\<forall>ev\<in>set evs. \<not> is_store_write ev))"
    by (rule conjunct1)
  with a1 have r: "fst (add_vcsl (demo_lib 225 (one_utxo 2000)) (demo_net (Reply 200 []) (Reply 400 ''no''))
           demo_S ''x'' ''p'' demo_world)
       = Inl (AnchorFailed ''x'' (BroadcastError (RequestException ''HTTPError'')))
     \<and> db (snd (add_vcsl (demo_lib 225 (one_utxo 2000)) (demo_net (Reply 200 []) (Reply 400 ''no''))
                demo_S ''x'' ''p'' demo_world)) = db demo_world"
    by blast
  from stranded a2 st
  have s: "fst (add_vcsl (demo_lib 225 (one_utxo 2000)) demo_W demo_S ''x'' ''p'' down_world)
     = Inl (ReconciliationRequired ''x'' ''beef'' (StoreError ''connection failed''))"
    by blast
  show ?thesis
    using a1 a2 st r s by blast
qed

lemma set_issuer_url_anchor:
  "set_issuer_url L W S issuer_id new_issuer_url w =
     (case update_issuer_url (db_service S) issuer_id new_issuer_url (db w) of
        Inl db_err \<Rightarrow> (Inl (PersistenceFailure db_err),
                       w\<lparr>trace := trace w @ [DbUpdateIssuerUrl issuer_id new_issuer_url]\<rparr>)
      | Inr d1 \<Rightarrow>
          (case anchor L W S (''issuer/'' @ issuer_id)
                  (w\<lparr>trace := trace w @ [DbUpdateIssuerUrl issuer_id new_issuer_url], db := d1\<rparr>) of
             (Inl e, w3) \<Rightarrow> (Inr None, w3)
           | (Inr txid', w3) \<Rightarrow>
               (case store_issuer_anchor (db_service S) issuer_id txid' (db w3) of
                  Inl db_err \<Rightarrow>
                    (Inr (Some txid'),
                     w3\<lparr>trace := trace w3 @ [DbStoreIssuerAnchor issuer_id txid', Warning txid']\<rparr>)
                | Inr d2 \<Rightarrow>
                    (Inr (Some txid'),
                     w3\<lparr>trace := trace w3 @ [DbStoreIssuerAnchor issuer_id txid'], db := d2\<rparr>))))"
proof (cases "update_issuer_url (db_service S) issuer_id new_issuer_url (db w)")
  case (Inl db_err)
  then show ?thesis
    by (simp add: set_issuer_url_def db_call_def)
next
  case (Inr d1)
  let ?w1 = "w\<lparr>trace := trace w @ [DbUpdateIssuerUrl issuer_id new_issuer_url], db := d1\<rparr>"
  let ?dk = "derive_brc42_key L S (''issuer/'' @ issuer_id) VCSL_PROTOCOL_ID"
  obtain r w2 where c: "create_anchor_tx L W S ?dk ?w1 = (r, w2)"
    by (cases "create_anchor_tx L W S ?dk ?w1")
  show ?thesis
  proof (cases r)
    case (Inl e)
    with Inr c show ?thesis
      by (simp add: set_issuer_url_def anchor_def db_call_def)
  next
    case t: (Inr t)
    obtain r' w3 where b: "broadcast_tx L W S t w2 = (r', w3)"
      by (cases "broadcast_tx L W S t w2")
    show ?thesis
    proof (cases r')
      case (Inl e)
      with Inr c t b show ?thesis
        by (simp add: set_issuer_url_def anchor_def db_call_def)
    next
      case i: (Inr txid')
      show ?thesis
      proof (cases "store_issuer_anchor (db_service S) issuer_id txid' (db w3)")
        case (Inl db_err)
        with Inr c t b i show ?thesis
          by (simp add: set_issuer_url_def anchor_def db_call_def)
      next
        case s: (Inr d2)
        with Inr c t b i show ?thesis
          by (simp add: set_issuer_url_def anchor_def db_call_def)
      qed
    qed
  qed
qed

text \<open>
  C8. In \<open>set_issuer_url\<close>: if the first write to the store raises, the call fails with
  that failure and nothing else has happened (the call of the store is the only event, no
  request has gone out). After a successful write, if the anchoring steps (derive, build,
  broadcast) fail, the call returns \<open>None\<close> and the store keeps the written value. If they
  succeed with a transaction id, the call returns that id whether recording the anchor in
  the store succeeds or raises; when it raises, the store keeps the first write and the call
  ends with a warning.
\<close>

theorem set_issuer_url_policy:
  "(\<forall>db_err. update_issuer_url (db_service S) issuer_id new_url (db w) = Inl db_err \<longrightarrow>
       set_issuer_url L W S issuer_id new_url w
       = (Inl (PersistenceFailure db_err), w\<lparr>trace := trace w @ [DbUpdateIssuerUrl issuer_id new_url]\<rparr>)
     \<and> (\<forall>ev\<in>set (trace (snd (set_issuer_url L W S issuer_id new_url w))).
           ev \<in> set (trace w) \<or> \<not> is_network_call ev))
   \<and> (\<forall>d1 e. update_issuer_url (db_service S) issuer_id new_url (db w) = Inr d1 \<longrightarrow>
       fst (anchor L W S (''issuer/'' @ issuer_id)
              (w\<lparr>trace := trace w @ [DbUpdateIssuerUrl issuer_id new_url], db := d1\<rparr>)) = Inl e \<longrightarrow>
       fst (set_issuer_url L W S issuer_id new_url w) = Inr None
     \<and> db (snd (set_issuer_url L W S issuer_id new_url w)) = d1)
   \<and> (\<forall>d1 txid'. update_issuer_url (db_service S) issuer_id new_url (db w) = Inr d1 \<longrightarrow>
       fst (anchor L W S (''issuer/'' @ issuer_id)
              (w\<lparr>trace := trace w @ [DbUpdateIssuerUrl issuer_id new_url], db := d1\<rparr>)) = Inr txid' \<longrightarrow>
       fst (set_issuer_url L W S issuer_id new_url w) = Inr (Some txid')
     \<and> (\<forall>db_err. store_issuer_anchor (db_service S) issuer_id txid' d1 = Inl db_err \<longrightarrow>
            db (snd (set_issuer_url L W S issuer_id new_url w)) = d1
          \<and> last (trace (snd (set_issuer_url L W S issuer_id new_url w))) = Warning txid')
     \<and> (\<forall>d2. store_issuer_anchor (db_service S) issuer_id txid' d1 = Inr d2 \<longrightarrow>
            db (snd (set_issuer_url L W S issuer_id new_url w)) = d2))"
proof (intro conjI allI impI)
  fix db_err
  assume u: "update_issuer_url (db_service S) issuer_id new_url (db w) = Inl db_err"
  then show "set_issuer_url L W S issuer_id new_url w
       = (Inl (PersistenceFailure db_err), w\<lparr>trace := trace w @ [DbUpdateIssuerUrl issuer_id new_url]\<rparr>)"
    by (simp add: set_issuer_url_anchor)
  then show "\<forall>ev\<in>set (trace (snd (set_issuer_url L W S issuer_id new_url w))).
           ev \<in> set (trace w) \<or> \<not> is_network_call ev"
    by auto
next
  fix d1 e
  let ?w1 = "w\<lparr>trace := trace w @ [DbUpdateIssuerUrl issuer_id new_url], db := d1\<rparr>"
  assume u: "update_issuer_url (db_service S) issuer_id new_url (db w) = Inr d1"
    and a: "fst (anchor L W S (''issuer/'' @ issuer_id) ?w1) = Inl e"
  obtain w3 where a': "anchor L W S (''issuer/'' @ issuer_id) ?w1 = (Inl e, w3)"
    using a by (cases "anchor L W S (''issuer/'' @ issuer_id) ?w1") simp
  have "db w3 = db ?w1"
    using anchor_world[of L W S "''issuer/'' @ issuer_id" ?w1] by (simp only: a' snd_conv)
  then have d: "db w3 = d1" by simp
  show "fst (set_issuer_url L W S issuer_id new_url w) = Inr None"
    using u a' by (simp add: set_issuer_url_anchor)
  show "db (snd (set_issuer_url L W S issuer_id new_url w)) = d1"
    using u a' d by (simp add: set_issuer_url_anchor)
next
  fix d1 txid'
  let ?w1 = "w\<lparr>trace := trace w @ [DbUpdateIssuerUrl issuer_id new_url], db := d1\<rparr>"
  assume u: "update_issuer_url (db_service S) issuer_id new_url (db w) = Inr d1"
    and a: "fst (anchor L W S (''issuer/'' @ issuer_id) ?w1) = Inr txid'"
  obtain w3 where a': "anchor L W S (''issuer/'' @ issuer_id) ?w1 = (Inr txid', w3)"
    using a by (cases "anchor L W S (''issuer/'' @ issuer_id) ?w1") simp
  have "db w3 = db ?w1"
    using anchor_world[of L W S "''issuer/'' @ issuer_id" ?w1] by (simp only: a' snd_conv)
  then have d: "db w3 = d1" by simp
  show "fst (set_issuer_url L W S issuer_id new_url w) = Inr (Some txid')"
    using u a' by (simp add: set_issuer_url_anchor split: sum.splits)
  { fix db_err
    assume "store_issuer_anchor (db_service S) issuer_id txid' d1 = Inl db_err"
    then show "db (snd (set_issuer_url L W S issuer_id new_url w)) = d1"
      and "last (trace (snd (set_issuer_url L W S issuer_id new_url w))) = Warning txid'"
      using u a' d by (simp_all add: set_issuer_url_anchor) }
  { fix d2
    assume "store_issuer_anchor (db_service S) issuer_id txid' d1 = Inr d2"
    then show "db (snd (set_issuer_url L W S issuer_id new_url w)) = d2"
      using u a' d by (simp add: set_issuer_url_anchor) }
qed

lemma demo_anchor_accepted_any:
  "fst (anchor (demo_lib 225 (one_utxo 2000)) demo_W (demo_service api) key_id w) = Inr ''beef''"
  by (simp add: service_defs demo_defs)

lemma demo_anchor_rejected_any:
  "fst (anchor (demo_lib 225 (one_utxo 2000)) (demo_net (Reply 200 []) (Reply 400 ''no''))
         (demo_service api) key_id w)
   = Inl (BroadcastError (RequestException ''HTTPError''))"
  by (simp add: service_defs demo_defs)

lemma demo_update_ok:
  "update_issuer_url (db_service (demo_service (demo_db b))) ''i'' ''u'' (db demo_world)
   = Inr (demo_store\<lparr>issuer_urls := [''i'' \<mapsto> (''u'', None)]\<rparr>)"
  by (simp add: demo_service_def demo_db_def pg_store_issuer_url_def demo_world_def demo_store_def)

theorem set_issuer_url_policy_witness:
  "update_issuer_url (db_service demo_S) ''i'' ''u'' (db demo_world)
     = Inl (PyError ''AttributeError: update_issuer_url'')
   \<and> set_issuer_url (demo_lib 225 (one_utxo 2000)) demo_W demo_S ''i'' ''u'' demo_world
     = (Inl (PersistenceFailure (PyError ''AttributeError: update_issuer_url'')),
        demo_world\<lparr>trace := trace demo_world @ [DbUpdateIssuerUrl ''i'' ''u'']\<rparr>)
   \<and> update_issuer_url (db_service (demo_service (demo_db False))) ''i'' ''u'' (db demo_world)
     = Inr (demo_store\<lparr>issuer_urls := [''i'' \<mapsto> (''u'', None)]\<rparr>)
   \<and> fst (set_issuer_url (demo_lib 225 (one_utxo 2000)) (demo_net (Reply 200 []) (Reply 400 ''no''))
           (demo_service (demo_db False)) ''i'' ''u'' demo_world) = Inr None
   \<and> store_issuer_anchor (db_service (demo_service (demo_db False))) ''i'' ''beef''
        (demo_store\<lparr>issuer_urls := [''i'' \<mapsto> (''u'', None)]\<rparr>) = Inl (StoreError ''write rejected'')
   \<and> fst (set_issuer_url (demo_lib 225 (one_utxo 2000)) demo_W (demo_service (demo_db False))
           ''i'' ''u'' demo_world) = Inr (Some ''beef'')
   \<and> last (trace (snd (set_issuer_url (demo_lib 225 (one_utxo 2000)) demo_W
                          (demo_service (demo_db False)) ''i'' ''u'' demo_world))) = Warning ''beef''"
proof -
  let ?L = "demo_lib 225 (one_utxo 2000)"
  let ?d1 = "demo_store\<lparr>issuer_urls := [''i'' \<mapsto> (''u'', None)]\<rparr>"
  note missing = set_issuer_url_policy[where L = ?L and W = demo_W and S = demo_S
      and issuer_id = "''i''" and new_url = "''u''" and w = demo_world]
  note rejected = set_issuer_url_policy[where L = ?L and W = "demo_net (Reply 200 []) (Reply 400 ''no'')"
      and S = "demo_service (demo_db False)" and issuer_id = "''i''" and new_url = "''u''"
      and w = demo_world]
  note unrecorded = set_issuer_url_policy[where L = ?L and W = demo_W
      and S = "demo_service (demo_db False)" and issuer_id = "''i''" and new_url = "''u''"
      and w = demo_world]
  have u0: "update_issuer_url (db_service demo_S) ''i'' ''u'' (db demo_world)
     = Inl (PyError ''AttributeError: update_issuer_url'')"
    by (simp add: demo_S_def demo_service_def PostgresDataStore_def)
  have u1: "update_issuer_url (db_service (demo_service (demo_db False))) ''i'' ''u'' (db demo_world)
     = Inr ?d1"
    by (rule demo_update_ok)
  have st: "store_issuer_anchor (db_service (demo_service (demo_db False))) ''i'' ''beef'' ?d1
     = Inl (StoreError ''write rejected'')"
    by (simp add: demo_service_def demo_db_def)
  from missing u0
  have r0: "set_issuer_url ?L demo_W demo_S ''i'' ''u'' demo_world
     = (Inl (PersistenceFailure (PyError ''AttributeError: update_issuer_url'')),
        demo_world\<lparr>trace := trace demo_world @ [DbUpdateIssuerUrl ''i'' ''u'']\<rparr>)"
    by blast
  from rejected u1 demo_anchor_rejected_any[of "demo_db False" "''issuer/'' @ ''i''"]
  have r1: "fst (set_issuer_url ?L (demo_net (Reply 200 []) (Reply 400 ''no''))
           (demo_service (demo_db False)) ''i'' ''u'' demo_world) = Inr None"
    by blast
  from unrecorded u1 st demo_anchor_accepted_any[of "demo_db False" "''issuer/'' @ ''i''"]
  have r2: "fst (set_issuer_url ?L demo_W (demo_service (demo_db False)) ''i'' ''u'' demo_world)
             = Inr (Some ''beef'')
     \<and> last (trace (snd (set_issuer_url ?L demo_W (demo_service (demo_db False)) ''i'' ''u''
                            demo_world))) = Warning ''beef''"
    by blast
  show ?thesis
    using u0 u1 st r0 r1 r2 by blast
qed

section \<open>Properties of the getters\<close>

text \<open>
  C10 (as the code has it). The service-level getters return \<open>None\<close> / \<open>(None, None)\<close>
  exactly when the record is absent from the store or the store query raises: the failure
  is swallowed and reported as absence. Hence the exposed operations answer an absent
  record and a failed store query in the same way; a record that is found is returned.
\<close>

theorem getters_none_iff:
  "(get_issuer_url S issuer_id w = None \<longleftrightarrow>
      db_get_issuer_url (db_service S) issuer_id (db w) = Inr None
      \<or> (\<exists>e. db_get_issuer_url (db_service S) issuer_id (db w) = Inl e))
   \<and> (get_vcsl S vid w = (None, None) \<longleftrightarrow>
      db_get_vcsl (db_service S) vid (db w) = Inr None
      \<or> (\<exists>e. db_get_vcsl (db_service S) vid (db w) = Inl e))
   \<and> (get_issuer_url S issuer_id w = None \<longrightarrow> get_issuer_url S' issuer_id w' = None \<longrightarrow>
        router_get_issuer_url S issuer_id w = router_get_issuer_url S' issuer_id w')
   \<and> (get_vcsl S vid w = (None, None) \<longrightarrow> get_vcsl S' vid w' = (None, None) \<longrightarrow>
        router_get_vcsl S vid w = router_get_vcsl S' vid w')
   \<and> (\<forall>row. db_get_issuer_url (db_service S) issuer_id (db w) = Inr (Some row) \<longrightarrow>
        router_get_issuer_url S issuer_id w = Inr (issuer_id, row))
   \<and> (\<forall>ipns t. db_get_vcsl (db_service S) vid (db w) = Inr (Some (ipns, t)) \<longrightarrow>
        router_get_vcsl S vid w = Inr (vid, Some ipns, Some t))"
  by (auto simp: get_issuer_url_def get_vcsl_def router_get_issuer_url_def router_get_vcsl_def
      split: sum.splits option.splits prod.splits)

lemmas getter_defs = get_issuer_url_def get_vcsl_def router_get_issuer_url_def router_get_vcsl_def
  demo_S_def demo_service_def PostgresDataStore_def pg_get_issuer_url_def pg_get_vcsl_def
  present_world_def present_unreachable_def demo_world_def demo_store_def

theorem getters_none_iff_witness:
  "db_get_issuer_url (db_service demo_S) ''i'' (db demo_world) = Inr None
   \<and> get_issuer_url demo_S ''i'' demo_world = None
   \<and> db_get_issuer_url (db_service demo_S) ''i'' (db present_unreachable)
     = Inl (StoreError ''connection failed'')
   \<and> get_issuer_url demo_S ''i'' present_unreachable = None
   \<and> router_get_issuer_url demo_S ''i'' present_unreachable = router_get_issuer_url demo_S ''i'' demo_world
   \<and> db_get_vcsl (db_service demo_S) ''v'' (db present_unreachable) = Inl (StoreError ''connection failed'')
   \<and> get_vcsl demo_S ''v'' present_unreachable = (None, None)
   \<and> get_vcsl demo_S ''v'' demo_world = (None, None)
   \<and> router_get_vcsl demo_S ''v'' present_unreachable = router_get_vcsl demo_S ''v'' demo_world
   \<and> db_get_issuer_url (db_service demo_S) ''i'' (db present_world)
     = Inr (Some (''https://issuer.example'', None))
   \<and> router_get_issuer_url demo_S ''i'' present_world = Inr (''i'', ''https://issuer.example'', None)
   \<and> db_get_vcsl (db_service demo_S) ''v'' (db present_world) = Inr (Some (''ipns1'', ''beef''))
   \<and> router_get_vcsl demo_S ''v'' present_world = Inr (''v'', Some ''ipns1'', Some ''beef'')"
proof -
  note failing = getters_none_iff[where S = demo_S and issuer_id = "''i''" and vid = "''v''"
      and w = present_unreachable and S' = demo_S and w' = demo_world]
  note absent = getters_none_iff[where S = demo_S and issuer_id = "''i''" and vid = "''v''"
      and w = demo_world and S' = demo_S and w' = demo_world]
  note found = getters_none_iff[where S = demo_S and issuer_id = "''i''" and vid = "''v''"
      and w = present_world and S' = demo_S and w' = demo_world]
  have q1: "db_get_issuer_url (db_service demo_S) ''i'' (db demo_world) = Inr None"
    and q2: "db_get_issuer_url (db_service demo_S) ''i'' (db present_unreachable)
             = Inl (StoreError ''connection failed'')"
    and q3: "db_get_vcsl (db_service demo_S) ''v'' (db present_unreachable)
             = Inl (StoreError ''connection failed'')"
    and q4: "db_get_vcsl (db_service demo_S) ''v'' (db demo_world) = Inr None"
    and q5: "db_get_issuer_url (db_service demo_S) ''i'' (db present_world)
             = Inr (Some (''https://issuer.example'', None))"
    and q6: "db_get_vcsl (db_service demo_S) ''v'' (db present_world) = Inr (Some (''ipns1'', ''beef''))"
    by (simp_all add: getter_defs)
  from absent q1 q4 have n1: "get_issuer_url demo_S ''i'' demo_world = None"
    and n2: "get_vcsl demo_S ''v'' demo_world = (None, None)"
    by blast+
  from failing q2 q3 have n3: "get_issuer_url demo_S ''i'' present_unreachable = None"
    and n4: "get_vcsl demo_S ''v'' present_unreachable = (None, None)"
    by blast+
  from failing n1 n2 n3 n4
  have e: "router_get_issuer_url demo_S ''i'' present_unreachable = router_get_issuer_url demo_S ''i'' demo_world"
    and e': "router_get_vcsl demo_S ''v'' present_unreachable = router_get_vcsl demo_S ''v'' demo_world"
    by blast+
  from found q5 q6
  have f: "router_get_issuer_url demo_S ''i'' present_world = Inr (''i'', ''https://issuer.example'', None)"
    and f': "router_get_vcsl demo_S ''v'' present_world = Inr (''v'', Some ''ipns1'', Some ''beef'')"
    by blast+
  show ?thesis
    using q1 q2 q3 q5 q6 n1 n2 n3 n4 e e' f f' by blast
qed

text \<open>
  C10 as stated fails: with a store that holds the issuer and the VCSL record but cannot be
  reached, the getters return \<open>None\<close> and \<open>(None, None)\<close> although the records are not
  absent, and the exposed operations answer exactly as they do for absent records.
\<close>

theorem getters_absent_only_counterexample:
  "issuer_urls (db present_unreachable) ''i'' = Some (''https://issuer.example'', None)
   \<and> get_issuer_url demo_S ''i'' present_unreachable = None
   \<and> vcsl_data (db present_unreachable) ''v'' = Some (''ipns1'', ''beef'')
   \<and> get_vcsl demo_S ''v'' present_unreachable = (None, None)
   \<and> db_get_issuer_url (db_service demo_S) ''i'' (db present_unreachable)
     = Inl (StoreError ''connection failed'')
   \<and> db_get_issuer_url (db_service demo_S) ''i'' (db demo_world) = Inr None
   \<and> router_get_issuer_url demo_S ''i'' present_unreachable = router_get_issuer_url demo_S ''i'' demo_world
   \<and> router_get_vcsl demo_S ''v'' present_unreachable = router_get_vcsl demo_S ''v'' demo_world"
  by (simp add: getter_defs)

text \<open>
  What the exposed operations answer for an absent record: the exception with status 404 is
  raised inside the \<open>try\<close> and caught by its \<open>except Exception\<close>, so the caller receives
  status 500.
\<close>

lemma router_absent_status:
  "router_get_issuer_url demo_S ''i'' demo_world
     = Inl (HTTPException 500 ''Error retrieving issuer URL: ''
              (Some (HTTPException 404 ''Issuer URL not found for i'' None)))
   \<and> router_get_vcsl demo_S ''v'' demo_world
     = Inl (HTTPException 500 ''Error retrieving VCSL data: ''
              (Some (HTTPException 404 ''VCSL data not found for id v'' None)))"
  by (simp add: getter_defs)

end
